theory Spec2Isabelle
  imports Complex_Main "HOL-Library.Finite_Map"
begin

section \<open>Go values used by the synchronization engine\<close>

text \<open>
  The engine of \<^verbatim>\<open>internal/controller/third_party_crd_common.go\<close> is embedded function by
  function. A Go slice that may be \<^verbatim>\<open>nil\<close> is a list option (\<open>None\<close> is the nil slice), a Go
  map that may be \<^verbatim>\<open>nil\<close> is a finite map option. The builtin \<^verbatim>\<open>len\<close> is 0 on both nil values.
\<close>

type_synonym 'a slice = "'a list option"

type_synonym 'v gomap = "(string, 'v) fmap option"

definition len_slice :: "'a slice \<Rightarrow> nat" where
  "len_slice s = (case s of None \<Rightarrow> 0 | Some xs \<Rightarrow> length xs)"

definition len_map :: "'v gomap \<Rightarrow> nat" where
  "len_map m = (case m of None \<Rightarrow> 0 | Some f \<Rightarrow> fcard (fmdom f))"

text \<open>Reading a key of a map; a nil map has no keys.\<close>

definition lookup_map :: "'v gomap \<Rightarrow> string \<Rightarrow> 'v option" where
  "lookup_map m k = (case m of None \<Rightarrow> None | Some f \<Rightarrow> fmlookup f k)"

definition keys_map :: "'v gomap \<Rightarrow> string set" where
  "keys_map m = (case m of None \<Rightarrow> {} | Some f \<Rightarrow> fmdom' f)"

text \<open>\<^verbatim>\<open>maps.Copy(dst, src)\<close> on a non-nil destination: every entry of \<open>src\<close> is written into
  \<open>dst\<close>, overwriting the entry of a key that \<open>dst\<close> already has.\<close>

definition maps_Copy :: "(string, 'v) fmap \<Rightarrow> (string, 'v) fmap \<Rightarrow> (string, 'v) fmap" where
  "maps_Copy dst src = dst ++\<^sub>f src"

subsection \<open>Formatting of integers (\<^verbatim>\<open>%d\<close>)\<close>

definition digit_char :: "nat \<Rightarrow> char" where
  "digit_char d =
     (if d = 0 then CHR ''0'' else if d = 1 then CHR ''1'' else if d = 2 then CHR ''2''
      else if d = 3 then CHR ''3'' else if d = 4 then CHR ''4'' else if d = 5 then CHR ''5''
      else if d = 6 then CHR ''6'' else if d = 7 then CHR ''7'' else if d = 8 then CHR ''8''
      else CHR ''9'')"

fun format_nat :: "nat \<Rightarrow> string" where
  "format_nat n = (if n < 10 then [digit_char n] else format_nat (n div 10) @ [digit_char (n mod 10)])"

declare format_nat.simps [simp del]

definition format_d :: "int \<Rightarrow> string" where
  "format_d i = (if i < 0 then CHR ''-'' # format_nat (nat (- i)) else format_nat (nat i))"

subsection \<open>Errors\<close>

text \<open>
  A Go \<^verbatim>\<open>error\<close> value. \<open>PlainError\<close> is an error of the platform or one made by
  \<^verbatim>\<open>fmt.Errorf\<close>, known by its message; \<open>ErrWaitTimeout\<close> is the library's sentinel for an
  exhausted backoff; \<open>RetryableError e r\<close> is \<^verbatim>\<open>&retryableError{err: e, retryable: r}\<close>.
\<close>

datatype error =
    PlainError string
  | ErrWaitTimeout
  | RetryableError error bool

text \<open>\<^verbatim>\<open>func (e *retryableError) Error() string { return e.err.Error() }\<close>\<close>

fun Error :: "error \<Rightarrow> string" where
  "Error (PlainError msg) = msg"
| "Error ErrWaitTimeout = ''timed out waiting for the condition''"
| "Error (RetryableError e r) = Error e"

subsection \<open>Requests, responses, cluster objects\<close>

record HttpRequest =
  Method :: string
  URL :: string

record HttpRequestWithItemName =
  ItemName :: string
  Request :: HttpRequest

text \<open>The body of a response is \<open>None\<close> when reading it (\<^verbatim>\<open>io.ReadAll\<close>) fails.\<close>

record HttpResponse =
  StatusCode :: int
  Body :: "string option"

record ApiConfig =
  Endpoint :: string
  Dataset :: string

datatype apiAction = upsert | delete_action

datatype SynchronizationStatus = Successful | PartiallySuccessful | Failed

text \<open>A third-party resource: the engine reads its namespace and its name only.\<close>

record ClientObject =
  GetNamespace :: string
  GetName :: string

text \<open>The monitoring resource of a namespace; its status section belongs to the per-kind
  collaborators and is a type parameter.\<close>

record 'st Dash0Monitoring =
  Namespace :: string
  Name :: string
  Status :: 'st

record 'st preconditionValidationResult =
  synchronizeResource :: bool
  thirdPartyResource :: "ClientObject option"
  monitoringResource :: "'st Dash0Monitoring option"
  authToken :: string
  apiEndpoint :: string
  dataset :: string
  k8sNamespace :: string
  k8sName :: string

subsection \<open>Effects\<close>

text \<open>
  Every function of the engine takes the state \<open>'x\<close> of the world outside the operator (the
  cluster behind the Kubernetes client, the Dash0 API behind the HTTP client) and returns the
  new one, with the list of the events it caused, in order. A log line is identified by the
  logger call that writes it; its formatted text is not modelled.
\<close>

datatype logMessage =
    MonitoringResourceLookupFailed
  | NoMonitoringResourceInNamespace
  | SynchronizationDisabled
  | NoApiEndpointProvided
  | NoAuthTokenSet
  | NothingToSynchronizeSkipping
  | SynchronizationSummary
  | ExecutingRequest
  | UnableToExecuteHttpRequest
  | UnexpectedStatusCode
  | UnexpectedStatusCodeMightBeRetried
  | FetchAttemptFailed
  | UpdateAttemptFailed
  | SuccessfullyUpdatedStatus
  | FinallyFailedNoMoreRetries

datatype 'st event =
    LogInfo logMessage
  | LogError logMessage
  | Sleep int
  | HttpClientDo HttpRequest
  | FindMonitoringResource string
  | K8sClientGet string string
  | K8sClientStatusUpdate "'st Dash0Monitoring"

text \<open>
  The interface \<^verbatim>\<open>ThirdPartyResourceReconciler\<close>, as the record of its methods. The clients it
  hands out are the functions that call them: \<open>HttpClient_Do\<close> is \<^verbatim>\<open>HttpClient().Do\<close> (a
  transport error, or a response), \<open>K8sClient_Get\<close> and \<open>K8sClient_Status_Update\<close> are
  \<^verbatim>\<open>K8sClient().Get\<close> and \<^verbatim>\<open>K8sClient().Status().Update\<close>. \<open>GetApiConfig\<close> is the value that
  \<^verbatim>\<open>GetApiConfig().Load()\<close> reads (\<open>None\<close> is the nil pointer). The per-kind collaborators
  \<open>MapResourceToHttpRequests\<close> and \<open>UpdateSynchronizationResultsInStatus\<close> are arbitrary
  functions; the latter returns the monitoring resource it has updated in place (its summary
  value only appears in log texts).
  \<open>FindUniqueOrMostRecentResourceInScope\<close> is the lookup of \<^verbatim>\<open>internal/util\<close> on the
  Kubernetes client of the reconciler; its code is not among the sources, so it is a
  parameter as well: it fails, finds nothing (\<open>None\<close>) or returns a monitoring resource.
\<close>

record ('x, 'st) ThirdPartyResourceReconciler =
  KindDisplayName :: string
  ShortName :: string
  ControllerName :: string
  GetAuthToken :: string
  GetApiConfig :: "ApiConfig option"
  GetHttpRetryDelay :: int
  IsSynchronizationEnabled :: "'st Dash0Monitoring \<Rightarrow> bool"
  MapResourceToHttpRequests ::
    "'st preconditionValidationResult \<Rightarrow> apiAction \<Rightarrow>
       int \<times> HttpRequestWithItemName list \<times> string list gomap \<times> string gomap"
  UpdateSynchronizationResultsInStatus ::
    "'st Dash0Monitoring \<Rightarrow> string \<Rightarrow> SynchronizationStatus \<Rightarrow> int \<Rightarrow> string slice \<Rightarrow>
       string gomap \<Rightarrow> string list gomap \<Rightarrow> 'st Dash0Monitoring"
  HttpClient_Do :: "HttpRequest \<Rightarrow> 'x \<Rightarrow> (error + HttpResponse) \<times> 'x"
  K8sClient_Get :: "string \<Rightarrow> string \<Rightarrow> 'x \<Rightarrow> (error + 'st Dash0Monitoring) \<times> 'x"
  K8sClient_Status_Update :: "'st Dash0Monitoring \<Rightarrow> 'x \<Rightarrow> error option \<times> 'x"
  FindUniqueOrMostRecentResourceInScope ::
    "string \<Rightarrow> 'x \<Rightarrow> (error + 'st Dash0Monitoring option) \<times> 'x"

section \<open>The retry loop of the libraries\<close>

text \<open>
  Modelled from the spec: \<^verbatim>\<open>retry.OnError\<close> (k8s.io/client-go) and the loop
  \<^verbatim>\<open>wait.ExponentialBackoff\<close> (k8s.io/apimachinery) under it are library code that is not
  among the sources. The spec gives their contract: the function is run up to \<open>Steps\<close> times
  in all, a failed run is followed by another one only when its error is classified
  retryable, the task sleeps between two runs, the delay starting at \<open>Duration\<close> and
  growing by \<open>Factor\<close>, and after the last run the last error is what the caller gets. The
  definitions follow the library's loop. \<open>Cap\<close> and \<open>Jitter\<close> are zero at both call sites
  and left out. \<open>Factor\<close> is a float64 in Go; here it is a rational and the product is exact,
  truncated to whole nanoseconds as the conversion to \<^verbatim>\<open>time.Duration\<close> does.
\<close>

record Backoff =
  Duration :: int
  Factor :: rat
  Steps :: int

definition Step :: "Backoff \<Rightarrow> int \<times> Backoff" where
  "Step b =
     (if Steps b < 1 then (Duration b, b)
      else
        let b1 = b\<lparr>Steps := Steps b - 1\<rparr>;
            duration = Duration b1;
            b2 = (if Factor b1 \<noteq> 0
                  then b1\<lparr>Duration := \<lfloor>of_int (Duration b1) * Factor b1\<rfloor>\<rparr>
                  else b1)
        in (duration, b2))"

function ExponentialBackoff ::
  "Backoff \<Rightarrow> ('s \<Rightarrow> (bool \<times> error option) \<times> 's \<times> 'st event list) \<Rightarrow> 's \<Rightarrow>
     error option \<times> 's \<times> 'st event list"
where
  "ExponentialBackoff backoff condition s =
     (if Steps backoff > 0 then
        (case condition s of
           ((ok, err), s1, evs1) \<Rightarrow>
             if err \<noteq> None \<or> ok then (err, s1, evs1)
             else if Steps backoff = 1 then (Some ErrWaitTimeout, s1, evs1)
             else
               (case ExponentialBackoff (snd (Step backoff)) condition s1 of
                  (res, s2, evs2) \<Rightarrow> (res, s2, evs1 @ [Sleep (fst (Step backoff))] @ evs2)))
      else (Some ErrWaitTimeout, s, []))"
  by pat_completeness auto
termination
  by (relation "measure (\<lambda>(b, c, s). nat (Steps b))") (auto simp: Step_def Let_def)

declare ExponentialBackoff.simps [simp del]

definition Interrupted :: "error option \<Rightarrow> bool" where
  "Interrupted err = (err = Some ErrWaitTimeout)"

text \<open>The condition that \<^verbatim>\<open>OnError\<close> hands to the loop. The variable \<^verbatim>\<open>lastErr\<close> that
  this closure captures is the second component of the state of the loop.\<close>

definition OnError_condition ::
  "(error \<Rightarrow> bool) \<Rightarrow> ('s \<Rightarrow> error option \<times> 's \<times> 'st event list) \<Rightarrow> 's \<times> error option \<Rightarrow>
     (bool \<times> error option) \<times> ('s \<times> error option) \<times> 'st event list"
where
  "OnError_condition retriable fn sl =
     (case sl of
        (s0, lastErr) \<Rightarrow>
          (case fn s0 of
             (None, s1, evs) \<Rightarrow> ((True, None), (s1, lastErr), evs)
           | (Some err, s1, evs) \<Rightarrow>
               if retriable err then ((False, None), (s1, Some err), evs)
               else ((False, Some err), (s1, lastErr), evs)))"

definition OnError ::
  "Backoff \<Rightarrow> (error \<Rightarrow> bool) \<Rightarrow> ('s \<Rightarrow> error option \<times> 's \<times> 'st event list) \<Rightarrow> 's \<Rightarrow>
     error option \<times> 's \<times> 'st event list"
where
  "OnError backoff retriable fn s =
     (case ExponentialBackoff backoff (OnError_condition retriable fn) (s, None) of
        (err, (s', lastErr), evs) \<Rightarrow> (if Interrupted err then lastErr else err, s', evs))"

section \<open>The synchronization engine\<close>

definition isValidApiConfig :: "ApiConfig option \<Rightarrow> bool" where
  "isValidApiConfig apiConfig = (case apiConfig of None \<Rightarrow> False | Some c \<Rightarrow> Endpoint c \<noteq> [])"

subsection \<open>Precondition validation\<close>

text \<open>The result \<^verbatim>\<open>&preconditionValidationResult{synchronizeResource: false}\<close>: every other
  field has the zero value of its type.\<close>

definition doNotSynchronize :: "'st preconditionValidationResult" where
  "doNotSynchronize =
     \<lparr>synchronizeResource = False, thirdPartyResource = None, monitoringResource = None,
      authToken = [], apiEndpoint = [], dataset = [], k8sNamespace = [], k8sName = []\<rparr>"

text \<open>\<^verbatim>\<open>util.DatasetDefault\<close> is a constant of a package that is not among the sources; it is
  the first parameter of the functions that use it.\<close>

definition validatePreconditions ::
  "string \<Rightarrow> ('x, 'st) ThirdPartyResourceReconciler \<Rightarrow> ClientObject \<Rightarrow> 'x \<Rightarrow>
     'st preconditionValidationResult \<times> 'x \<times> 'st event list"
where
  "validatePreconditions DatasetDefault resourceReconciler tpr x =
     (let namespace = GetNamespace tpr;
          name = GetName tpr
      in case FindUniqueOrMostRecentResourceInScope resourceReconciler (GetNamespace tpr) x of
           (Inl err, x1) \<Rightarrow>
             (doNotSynchronize, x1,
              [FindMonitoringResource namespace, LogError MonitoringResourceLookupFailed])
         | (Inr None, x1) \<Rightarrow>
             (doNotSynchronize, x1,
              [FindMonitoringResource namespace, LogInfo NoMonitoringResourceInNamespace])
         | (Inr (Some monitoringRes), x1) \<Rightarrow>
             if \<not> IsSynchronizationEnabled resourceReconciler monitoringRes then
               (doNotSynchronize, x1,
                [FindMonitoringResource namespace, LogInfo SynchronizationDisabled])
             else
               let apiConfig = GetApiConfig resourceReconciler in
               if \<not> isValidApiConfig apiConfig then
                 (doNotSynchronize, x1,
                  [FindMonitoringResource namespace, LogInfo NoApiEndpointProvided])
               else
                 let token = GetAuthToken resourceReconciler in
                 if token = [] then
                   (doNotSynchronize, x1,
                    [FindMonitoringResource namespace, LogInfo NoAuthTokenSet])
                 else
                   (case apiConfig of
                      None \<Rightarrow> \<comment> \<open>not reached: a nil pointer is not a valid configuration\<close>
                        (doNotSynchronize, x1, [FindMonitoringResource namespace])
                    | Some c \<Rightarrow>
                        let ds = (if Dataset c = [] then DatasetDefault else Dataset c) in
                        (\<lparr>synchronizeResource = True,
                          thirdPartyResource = Some tpr,
                          monitoringResource = Some monitoringRes,
                          authToken = token,
                          apiEndpoint = Endpoint c,
                          dataset = ds,
                          k8sNamespace = namespace,
                          k8sName = name\<rparr>,
                         x1, [FindMonitoringResource namespace])))"

subsection \<open>Executing the HTTP requests\<close>

definition convertNon2xxStatusCodeToError ::
  "('x, 'st) ThirdPartyResourceReconciler \<Rightarrow> HttpRequestWithItemName \<Rightarrow> HttpResponse \<Rightarrow> error"
where
  "convertNon2xxStatusCodeToError resourceReconciler req res =
     (case Body res of
        None \<Rightarrow>
          PlainError
            (''unable to read the API response payload after receiving status code '' @
             format_d (StatusCode res) @
             '' when trying to udpate/create/delete the '' @ ShortName resourceReconciler @
             '' '' @ [CHR 0x22] @ ItemName req @ [CHR 0x22] @ '' at '' @ URL (Request req))
      | Some responseBody \<Rightarrow>
          PlainError
            (''unexpected status code '' @ format_d (StatusCode res) @
             '' when updating/creating/deleting the '' @ ShortName resourceReconciler @
             '' '' @ [CHR 0x22] @ ItemName req @ [CHR 0x22] @ '' at '' @ URL (Request req) @
             '', response body is '' @ responseBody))"

definition executeSingleHttpRequest ::
  "('x, 'st) ThirdPartyResourceReconciler \<Rightarrow> HttpRequestWithItemName \<Rightarrow> 'x \<Rightarrow>
     error option \<times> 'x \<times> 'st event list"
where
  "executeSingleHttpRequest resourceReconciler req x =
     (case HttpClient_Do resourceReconciler (Request req) x of
        (Inl err, x1) \<Rightarrow>
          (Some (RetryableError err True), x1,
           [HttpClientDo (Request req), LogError UnableToExecuteHttpRequest])
      | (Inr res, x1) \<Rightarrow>
          if StatusCode res < 200 \<or> StatusCode res \<ge> 300 then
            let statusCodeError = convertNon2xxStatusCodeToError resourceReconciler req res in
            if StatusCode res \<ge> 400 \<and> StatusCode res < 500 then
              (Some (RetryableError statusCodeError False), x1,
               [HttpClientDo (Request req), LogError UnexpectedStatusCode])
            else
              (Some (RetryableError statusCodeError True), x1,
               [HttpClientDo (Request req), LogError UnexpectedStatusCodeMightBeRetried])
          else (None, x1, [HttpClientDo (Request req)]))"

text \<open>The closure given to \<^verbatim>\<open>retry.OnError\<close>: \<^verbatim>\<open>errors.As\<close> finds a \<^verbatim>\<open>*retryableError\<close> only
  when the error is one (no error of the engine wraps another one with \<^verbatim>\<open>Unwrap\<close>).\<close>

fun isRetryable :: "error \<Rightarrow> bool" where
  "isRetryable (RetryableError e r) = r"
| "isRetryable (PlainError msg) = False"
| "isRetryable ErrWaitTimeout = False"

definition httpBackoff :: "('x, 'st) ThirdPartyResourceReconciler \<Rightarrow> Backoff" where
  "httpBackoff resourceReconciler =
     \<lparr>Duration = GetHttpRetryDelay resourceReconciler, Factor = 3 / 2, Steps = 3\<rparr>"

definition executeSingleHttpRequestWithRetry ::
  "('x, 'st) ThirdPartyResourceReconciler \<Rightarrow> HttpRequestWithItemName \<Rightarrow> string \<Rightarrow> 'x \<Rightarrow>
     error option \<times> 'x \<times> 'st event list"
where
  "executeSingleHttpRequestWithRetry resourceReconciler req actionLabel x =
     (case OnError (httpBackoff resourceReconciler) isRetryable
             (executeSingleHttpRequest resourceReconciler req) x of
        (err, x1, evs) \<Rightarrow> (err, x1, LogInfo ExecutingRequest # evs))"

text \<open>The loop of \<^verbatim>\<open>executeAllHttpRequests\<close>, with the two accumulators of the source.\<close>

fun executeAllHttpRequests_loop ::
  "('x, 'st) ThirdPartyResourceReconciler \<Rightarrow> HttpRequestWithItemName list \<Rightarrow> string \<Rightarrow>
     string list \<Rightarrow> (string, string) fmap \<Rightarrow> 'x \<Rightarrow>
     string list \<times> (string, string) fmap \<times> 'x \<times> 'st event list"
where
  "executeAllHttpRequests_loop resourceReconciler [] actionLabel successfullySynchronized httpErrors x =
     (successfullySynchronized, httpErrors, x, [])"
| "executeAllHttpRequests_loop resourceReconciler (req # reqs) actionLabel successfullySynchronized httpErrors x =
     (case executeSingleHttpRequestWithRetry resourceReconciler req actionLabel x of
        (Some err, x1, evs1) \<Rightarrow>
          (case executeAllHttpRequests_loop resourceReconciler reqs actionLabel
                  successfullySynchronized (fmupd (ItemName req) (Error err) httpErrors) x1 of
             (s, m, x2, evs2) \<Rightarrow> (s, m, x2, evs1 @ evs2))
      | (None, x1, evs1) \<Rightarrow>
          (case executeAllHttpRequests_loop resourceReconciler reqs actionLabel
                  (successfullySynchronized @ [ItemName req]) httpErrors x1 of
             (s, m, x2, evs2) \<Rightarrow> (s, m, x2, evs1 @ evs2)))"

definition executeAllHttpRequests ::
  "('x, 'st) ThirdPartyResourceReconciler \<Rightarrow> HttpRequestWithItemName list \<Rightarrow> string \<Rightarrow> 'x \<Rightarrow>
     string slice \<times> string gomap \<times> 'x \<times> 'st event list"
where
  "executeAllHttpRequests resourceReconciler allRequests actionLabel x =
     (case executeAllHttpRequests_loop resourceReconciler allRequests actionLabel [] fmempty x of
        (successfullySynchronized, httpErrors, x1, evs) \<Rightarrow>
          ((if length successfullySynchronized = 0 then None else Some successfullySynchronized),
           Some httpErrors, x1, evs))"

subsection \<open>Writing the result to the monitoring resource\<close>

text \<open>The variable \<^verbatim>\<open>result\<close> of \<^verbatim>\<open>writeSynchronizationResult\<close>.\<close>

definition synchronizationResult ::
  "string slice \<Rightarrow> string list gomap \<Rightarrow> string gomap \<Rightarrow> SynchronizationStatus"
where
  "synchronizationResult succesfullySynchronized validationIssuesPerItem synchronizationErrorsPerItem =
     (if len_slice succesfullySynchronized > 0 \<and> len_map validationIssuesPerItem = 0 \<and>
         len_map synchronizationErrorsPerItem = 0
      then Successful
      else if len_slice succesfullySynchronized > 0 then PartiallySuccessful
      else Failed)"

text \<open>The function that \<^verbatim>\<open>writeSynchronizationResult\<close> retries: re-fetch, merge, write. The
  monitoring resource is an object that \<^verbatim>\<open>Get\<close> and the merge overwrite in place, so it is
  part of the state of the loop.\<close>

definition statusWriteAttempt ::
  "('x, 'st) ThirdPartyResourceReconciler \<Rightarrow> string \<Rightarrow> SynchronizationStatus \<Rightarrow> int \<Rightarrow>
     string slice \<Rightarrow> string list gomap \<Rightarrow> string gomap \<Rightarrow> 'x \<times> 'st Dash0Monitoring \<Rightarrow>
     error option \<times> ('x \<times> 'st Dash0Monitoring) \<times> 'st event list"
where
  "statusWriteAttempt resourceReconciler qualifiedName result itemsTotal succesfullySynchronized
       validationIssuesPerItem synchronizationErrorsPerItem s =
     (case s of
        (x, mr) \<Rightarrow>
          (case K8sClient_Get resourceReconciler (Namespace mr) (Name mr) x of
             (Inl err, x1) \<Rightarrow>
               (Some err, (x1, mr),
                [K8sClientGet (Namespace mr) (Name mr), LogError FetchAttemptFailed])
           | (Inr fetched, x1) \<Rightarrow>
               let mr1 = UpdateSynchronizationResultsInStatus resourceReconciler fetched
                           qualifiedName result itemsTotal succesfullySynchronized
                           synchronizationErrorsPerItem validationIssuesPerItem
               in (case K8sClient_Status_Update resourceReconciler mr1 x1 of
                     (Some err, x2) \<Rightarrow>
                       (Some err, (x2, mr1),
                        [K8sClientGet (Namespace mr) (Name mr), K8sClientStatusUpdate mr1,
                         LogError UpdateAttemptFailed])
                   | (None, x2) \<Rightarrow>
                       (None, (x2, mr1),
                        [K8sClientGet (Namespace mr) (Name mr), K8sClientStatusUpdate mr1,
                         LogInfo SuccessfullyUpdatedStatus]))))"

definition statusBackoff :: Backoff where
  "statusBackoff = \<lparr>Duration = 1000000000, Factor = 13 / 10, Steps = 3\<rparr>"

definition writeSynchronizationResult ::
  "('x, 'st) ThirdPartyResourceReconciler \<Rightarrow> 'st Dash0Monitoring \<Rightarrow> ClientObject \<Rightarrow> int \<Rightarrow>
     string slice \<Rightarrow> string list gomap \<Rightarrow> string gomap \<Rightarrow> 'x \<Rightarrow> 'x \<times> 'st event list"
where
  "writeSynchronizationResult resourceReconciler mr tpr itemsTotal succesfullySynchronized
       validationIssuesPerItem synchronizationErrorsPerItem x =
     (let qualifiedName = GetNamespace tpr @ ''/'' @ GetName tpr;
          result = synchronizationResult succesfullySynchronized validationIssuesPerItem
                     synchronizationErrorsPerItem
      in case OnError statusBackoff (\<lambda>err. True)
                (statusWriteAttempt resourceReconciler qualifiedName result itemsTotal
                   succesfullySynchronized validationIssuesPerItem synchronizationErrorsPerItem)
                (x, mr) of
           (errAfterRetry, (x1, mr1), evs) \<Rightarrow>
             (x1, evs @ (if errAfterRetry \<noteq> None then [LogError FinallyFailedNoMoreRetries] else [])))"

subsection \<open>One synchronization attempt\<close>

text \<open>
  \<^verbatim>\<open>synchronizeViaApi\<close> returns nothing. The pointer to the monitoring resource that it takes
  from the precondition result is dereferenced by \<^verbatim>\<open>writeSynchronizationResult\<close>; a nil
  pointer there would panic, which is the outcome \<open>NilPointerPanic\<close>.
\<close>

datatype outcome = Returned | NilPointerPanic

text \<open>The merge of the errors of the HTTP stage into those of the mapping stage, as
  \<^verbatim>\<open>synchronizeViaApi\<close> does it: only when there are HTTP errors, into a map that is made
  first when it is nil.\<close>

definition mergeErrors :: "string gomap \<Rightarrow> string gomap \<Rightarrow> string gomap" where
  "mergeErrors synchronizationErrors httpErrors =
     (if len_map httpErrors > 0 then
        (case httpErrors of
           None \<Rightarrow> synchronizationErrors
         | Some src \<Rightarrow>
             Some (maps_Copy (case synchronizationErrors of None \<Rightarrow> fmempty | Some dst \<Rightarrow> dst) src))
      else synchronizationErrors)"

definition synchronizeViaApi ::
  "string \<Rightarrow> ('x, 'st) ThirdPartyResourceReconciler \<Rightarrow> ClientObject \<Rightarrow> apiAction \<Rightarrow> string \<Rightarrow> 'x \<Rightarrow>
     outcome \<times> 'x \<times> 'st event list"
where
  "synchronizeViaApi DatasetDefault resourceReconciler tpr action actionLabel x =
     (case validatePreconditions DatasetDefault resourceReconciler tpr x of
        (preconditionChecksResult, x1, evs1) \<Rightarrow>
          if \<not> synchronizeResource preconditionChecksResult then (Returned, x1, evs1)
          else
            (case MapResourceToHttpRequests resourceReconciler preconditionChecksResult action of
               (itemsTotal, httpRequests, validationIssues, synchronizationErrors) \<Rightarrow>
                 let evs2 =
                       (if length httpRequests = 0 \<and> len_map validationIssues = 0 \<and>
                           len_map synchronizationErrors = 0
                        then [LogInfo NothingToSynchronizeSkipping] else [])
                 in (case (if length httpRequests > 0
                           then executeAllHttpRequests resourceReconciler httpRequests actionLabel x1
                           else (None, None, x1, [])) of
                       (successfullySynchronized, httpErrors, x2, evs3) \<Rightarrow>
                         let synchronizationErrors' = mergeErrors synchronizationErrors httpErrors;
                             evs4 = [LogInfo SynchronizationSummary]
                         in (case monitoringResource preconditionChecksResult of
                               None \<Rightarrow> (NilPointerPanic, x2, evs1 @ evs2 @ evs3 @ evs4)
                             | Some mr \<Rightarrow>
                                 (case writeSynchronizationResult resourceReconciler mr tpr itemsTotal
                                         successfullySynchronized validationIssues
                                         synchronizationErrors' x2 of
                                    (x3, evs5) \<Rightarrow>
                                      (Returned, x3, evs1 @ evs2 @ evs3 @ evs4 @ evs5))))))"

definition upsertViaApi ::
  "string \<Rightarrow> ('x, 'st) ThirdPartyResourceReconciler \<Rightarrow> ClientObject \<Rightarrow> 'x \<Rightarrow>
     outcome \<times> 'x \<times> 'st event list"
where
  "upsertViaApi DatasetDefault resourceReconciler tpr x =
     synchronizeViaApi DatasetDefault resourceReconciler tpr upsert ''Creating/updating'' x"

definition deleteViaApi ::
  "string \<Rightarrow> ('x, 'st) ThirdPartyResourceReconciler \<Rightarrow> ClientObject \<Rightarrow> 'x \<Rightarrow>
     outcome \<times> 'x \<times> 'st event list"
where
  "deleteViaApi DatasetDefault resourceReconciler tpr x =
     synchronizeViaApi DatasetDefault resourceReconciler tpr delete_action ''Deleting'' x"

section \<open>Starting and stopping the watch for the third-party resources\<close>

text \<open>
  The cancel function of the context of a running controller is known by a number. The state
  that the lifecycle functions change is the slot for the stop function of the resource
  reconciler (\<^verbatim>\<open>GetControllerStopFunction\<close>, \<^verbatim>\<open>SetControllerStopFunction\<close>) and the count of
  the contexts made so far. The calls into the controller runtime are events.
\<close>

datatype CancelFunc = CancelFunc nat

datatype lifecycleMessage =
    CrdDoesNotExist
  | CrdPresentButNoApiEndpoint
  | CrdPresentWillWatch
  | SettingUpWatch
  | CannotCreateController
  | CreatedController
  | UnableToCreateWatch
  | CreatedWatch
  | UnableToStartController
  | ControllerHasBeenStopped
  | IgnoringStopAlreadyStopped
  | RemovingInformer
  | UnableToRemoveInformer
  | StoppingControllerNow

datatype lifecycleEvent =
    Lock
  | Unlock
  | Info lifecycleMessage
  | Err lifecycleMessage
  | NewTypedUnmanaged string
  | ControllerWatch
  | GoControllerStart CancelFunc
  | RemoveInformer
  | CallCancelFunc CancelFunc

record watchState =
  controllerStopFunction :: "CancelFunc option"
  contextsCreated :: nat

text \<open>
  The interface \<^verbatim>\<open>ThirdPartyCrdReconciler\<close> with what the lifecycle functions use of it.
  \<open>DoesCrdExist\<close> is the value that \<^verbatim>\<open>DoesCrdExist().Load()\<close> reads. The method
  \<^verbatim>\<open>IsWatching\<close> of the resource reconciler has no implementation among the sources and is
  any function of the state. \<open>NewTypedUnmanaged_err\<close>, \<open>Watch_err\<close> and
  \<open>RemoveInformer_err\<close> are the errors (or \<open>None\<close>) that the controller runtime returns.
\<close>

record ('x, 'st) ThirdPartyCrdReconciler =
  QualifiedKind :: string
  ResourceReconciler :: "('x, 'st) ThirdPartyResourceReconciler"
  DoesCrdExist :: bool
  IsWatching :: "watchState \<Rightarrow> bool"
  NewTypedUnmanaged_err :: "error option"
  Watch_err :: "error option"
  RemoveInformer_err :: "error option"

definition maybeStartWatchingThirdPartyResources ::
  "('x, 'st) ThirdPartyCrdReconciler \<Rightarrow> bool \<Rightarrow> watchState \<Rightarrow> watchState \<times> lifecycleEvent list"
where
  "maybeStartWatchingThirdPartyResources crdReconciler isStartup s =
     (let resourceReconciler = ResourceReconciler crdReconciler in
      if IsWatching crdReconciler s then (s, [Lock, Unlock])
      else if \<not> DoesCrdExist crdReconciler then (s, [Lock, Info CrdDoesNotExist, Unlock])
      else if \<not> isValidApiConfig (GetApiConfig resourceReconciler) then
        (s, [Lock] @ (if \<not> isStartup then [Info CrdPresentButNoApiEndpoint] else []) @ [Unlock])
      else
        (case NewTypedUnmanaged_err crdReconciler of
           Some err \<Rightarrow>
             (s, [Lock, Info CrdPresentWillWatch, Info SettingUpWatch,
                  NewTypedUnmanaged (ControllerName resourceReconciler),
                  Err CannotCreateController, Unlock])
         | None \<Rightarrow>
             (case Watch_err crdReconciler of
                Some err \<Rightarrow>
                  (s, [Lock, Info CrdPresentWillWatch, Info SettingUpWatch,
                       NewTypedUnmanaged (ControllerName resourceReconciler),
                       Info CreatedController, ControllerWatch, Err UnableToCreateWatch, Unlock])
              | None \<Rightarrow>
                  let stopResourceController = CancelFunc (contextsCreated s) in
                  (s\<lparr>controllerStopFunction := Some stopResourceController,
                     contextsCreated := contextsCreated s + 1\<rparr>,
                   [Lock, Info CrdPresentWillWatch, Info SettingUpWatch,
                    NewTypedUnmanaged (ControllerName resourceReconciler),
                    Info CreatedController, ControllerWatch, Info CreatedWatch,
                    GoControllerStart stopResourceController, Unlock]))))"

text \<open>The end of the goroutine that \<^verbatim>\<open>maybeStartWatchingThirdPartyResources\<close> starts: when
  \<^verbatim>\<open>resourceController.Start\<close> returns, with an error or without, the slot is cleared.\<close>

definition resourceControllerStartReturned ::
  "error option \<Rightarrow> watchState \<Rightarrow> watchState \<times> lifecycleEvent list"
where
  "resourceControllerStartReturned err s =
     (case err of
        Some e \<Rightarrow> (s\<lparr>controllerStopFunction := None\<rparr>, [Err UnableToStartController])
      | None \<Rightarrow> (s\<lparr>controllerStopFunction := None\<rparr>, [Info ControllerHasBeenStopped]))"

definition stopWatchingThirdPartyResources ::
  "('x, 'st) ThirdPartyCrdReconciler \<Rightarrow> watchState \<Rightarrow> watchState \<times> lifecycleEvent list"
where
  "stopWatchingThirdPartyResources crdReconciler s =
     (case controllerStopFunction s of
        None \<Rightarrow> (s, [Lock, Info IgnoringStopAlreadyStopped, Unlock])
      | Some cancelFunc \<Rightarrow>
          (s\<lparr>controllerStopFunction := None\<rparr>,
           [Lock, Info RemovingInformer, RemoveInformer] @
           (case RemoveInformer_err crdReconciler of
              Some err \<Rightarrow> [Err UnableToRemoveInformer]
            | None \<Rightarrow> []) @
           [Info StoppingControllerNow, CallCancelFunc cancelFunc, Unlock]))"

section \<open>Reading a run\<close>

text \<open>What the theorems read off the events of a run: the calls of the HTTP client, the
  calls of \<^verbatim>\<open>Get\<close> on the Kubernetes client, the delays slept, in order.\<close>

fun isHttpClientDo :: "'st event \<Rightarrow> bool" where
  "isHttpClientDo (HttpClientDo r) = True"
| "isHttpClientDo e = False"

fun isK8sClientGet :: "'st event \<Rightarrow> bool" where
  "isK8sClientGet (K8sClientGet ns n) = True"
| "isK8sClientGet e = False"

fun isSleep :: "'st event \<Rightarrow> bool" where
  "isSleep (Sleep d) = True"
| "isSleep e = False"

definition httpAttempts :: "'st event list \<Rightarrow> nat" where
  "httpAttempts evs = length (filter isHttpClientDo evs)"

definition statusWriteAttempts :: "'st event list \<Rightarrow> nat" where
  "statusWriteAttempts evs = length (filter isK8sClientGet evs)"

definition sleeps :: "'st event list \<Rightarrow> 'st event list" where
  "sleeps evs = filter isSleep evs"

text \<open>The runs of a retried function one after the other, whatever the retry policy: the
  state before run \<open>k\<close> (counted from 0) and the error that run \<open>k\<close> returns.\<close>

definition stateBeforeAttempt :: "('s \<Rightarrow> error option \<times> 's \<times> 'e list) \<Rightarrow> nat \<Rightarrow> 's \<Rightarrow> 's" where
  "stateBeforeAttempt fn k s = ((\<lambda>t. fst (snd (fn t))) ^^ k) s"

definition attemptResult :: "('s \<Rightarrow> error option \<times> 's \<times> 'e list) \<Rightarrow> nat \<Rightarrow> 's \<Rightarrow> error option" where
  "attemptResult fn k s = fst (fn (stateBeforeAttempt fn k s))"

text \<open>The function that \<^verbatim>\<open>writeSynchronizationResult\<close> retries, with the arguments that
  \<^verbatim>\<open>writeSynchronizationResult\<close> gives it.\<close>

definition retriedStatusWrite ::
  "('x, 'st) ThirdPartyResourceReconciler \<Rightarrow> ClientObject \<Rightarrow> int \<Rightarrow> string slice \<Rightarrow>
     string list gomap \<Rightarrow> string gomap \<Rightarrow> 'x \<times> 'st Dash0Monitoring \<Rightarrow>
     error option \<times> ('x \<times> 'st Dash0Monitoring) \<times> 'st event list"
where
  "retriedStatusWrite rr tpr itemsTotal succ issues errs =
     statusWriteAttempt rr (GetNamespace tpr @ ''/'' @ GetName tpr)
       (synchronizationResult succ issues errs) itemsTotal succ issues errs"

text \<open>The requests of a list executed one after the other: each item name with what
  \<^verbatim>\<open>executeSingleHttpRequestWithRetry\<close> returns for it, in the state that the requests before
  it have left.\<close>

fun executionResults ::
  "('x, 'st) ThirdPartyResourceReconciler \<Rightarrow> HttpRequestWithItemName list \<Rightarrow> string \<Rightarrow> 'x \<Rightarrow>
     (string \<times> error option) list"
where
  "executionResults resourceReconciler [] actionLabel x = []"
| "executionResults resourceReconciler (req # reqs) actionLabel x =
     (case executeSingleHttpRequestWithRetry resourceReconciler req actionLabel x of
        (err, x1, evs) \<Rightarrow> (ItemName req, err) # executionResults resourceReconciler reqs actionLabel x1)"

definition elems :: "'a slice \<Rightarrow> 'a list" where
  "elems s = (case s of None \<Rightarrow> [] | Some xs \<Rightarrow> xs)"

section \<open>An example reconciler\<close>

text \<open>
  A reconciler for the concrete runs below. The state of the world is the number of client
  calls made so far. The Dash0 API answers a request by its URL and that number; \<^verbatim>\<open>Get\<close>
  returns the monitoring resource of the namespace; the status update fails or not by that
  number; the mapping collaborator returns a fixed answer; the status-merge collaborator
  records what it is given.
\<close>

type_synonym recorded =
  "(SynchronizationStatus \<times> int \<times> string slice \<times> string gomap \<times> string list gomap) option"

definition exampleObject :: ClientObject where
  "exampleObject = \<lparr>GetNamespace = ''ns'', GetName = ''board''\<rparr>"

definition exampleMonitoring :: "recorded Dash0Monitoring" where
  "exampleMonitoring = \<lparr>Namespace = ''ns'', Name = ''dash0'', Status = None\<rparr>"

definition exampleReconciler ::
  "(string \<Rightarrow> nat \<Rightarrow> error + HttpResponse) \<Rightarrow> (nat \<Rightarrow> error option) \<Rightarrow>
   int \<times> HttpRequestWithItemName list \<times> string list gomap \<times> string gomap \<Rightarrow>
   (nat, recorded) ThirdPartyResourceReconciler"
where
  "exampleReconciler api updateErr mapped =
     \<lparr>KindDisplayName = ''Perses dashboard'',
      ShortName = ''dashboard'',
      ControllerName = ''dash0_perses_dashboard_controller'',
      GetAuthToken = ''token'',
      GetApiConfig = Some \<lparr>Endpoint = ''https://api.example'', Dataset = []\<rparr>,
      GetHttpRetryDelay = 2000000000,
      IsSynchronizationEnabled = (\<lambda>m. True),
      MapResourceToHttpRequests = (\<lambda>pre action. mapped),
      UpdateSynchronizationResultsInStatus =
        (\<lambda>m qualifiedName status itemsTotal succeeded errs issues.
           m\<lparr>Status := Some (status, itemsTotal, succeeded, errs, issues)\<rparr>),
      HttpClient_Do = (\<lambda>req n. (api (URL req) n, Suc n)),
      K8sClient_Get = (\<lambda>ns name n. (Inr exampleMonitoring, Suc n)),
      K8sClient_Status_Update = (\<lambda>m n. (updateErr n, Suc n)),
      FindUniqueOrMostRecentResourceInScope = (\<lambda>ns n. (Inr (Some exampleMonitoring), Suc n))\<rparr>"

definition respond :: "int \<Rightarrow> string \<Rightarrow> nat \<Rightarrow> error + HttpResponse" where
  "respond code url n = Inr \<lparr>StatusCode = code, Body = Some []\<rparr>"

definition putItem :: "string \<Rightarrow> HttpRequestWithItemName" where
  "putItem name = \<lparr>ItemName = name, Request = \<lparr>Method = ''PUT'', URL = ''/'' @ name\<rparr>\<rparr>"

text \<open>A CRD reconciler over it, which takes the watch to be running when the slot for the
  stop function is filled, and a controller runtime that returns no error.\<close>

definition exampleCrdReconciler :: "(nat, recorded) ThirdPartyCrdReconciler" where
  "exampleCrdReconciler =
     \<lparr>QualifiedKind = ''persesdashboards.perses.dev'',
      ResourceReconciler = exampleReconciler (respond 200) (\<lambda>n. None) (0, [], None, None),
      DoesCrdExist = True,
      IsWatching = (\<lambda>s. controllerStopFunction s \<noteq> None),
      NewTypedUnmanaged_err = None,
      Watch_err = None,
      RemoveInformer_err = None\<rparr>"

text \<open>
  The code of \<^verbatim>\<open>util.FindUniqueOrMostRecentResourceInScope\<close> is not among the sources. The
  lookup below does what that name says, on a cluster given by its monitoring resources,
  each with its creation time: of the resources of the namespace it returns none when there
  is none, and otherwise the one created last.
\<close>

fun mostRecent :: "(nat \<times> 'a) list \<Rightarrow> (nat \<times> 'a) option" where
  "mostRecent [] = None"
| "mostRecent (r # rs) =
     (case mostRecent rs of
        None \<Rightarrow> Some r
      | Some r' \<Rightarrow> if fst r < fst r' then Some r' else Some r)"

definition lookupUniqueOrMostRecent ::
  "(nat \<times> recorded Dash0Monitoring) list \<Rightarrow> string \<Rightarrow> nat \<Rightarrow>
     (error + recorded Dash0Monitoring option) \<times> nat"
where
  "lookupUniqueOrMostRecent resources ns n =
     (Inr (map_option snd (mostRecent (filter (\<lambda>(t, m). Namespace m = ns) resources))), Suc n)"

definition olderMonitoring :: "recorded Dash0Monitoring" where
  "olderMonitoring = \<lparr>Namespace = ''ns'', Name = ''dash0-older'', Status = None\<rparr>"

section \<open>Schedules of lifecycle steps\<close>

text \<open>
  \<^verbatim>\<open>maybeStartWatchingThirdPartyResources\<close> holds the lock of the stop function from its first
  statement to its return, so calls that arrive concurrently run one after the other, in the
  order in which they take the lock. The goroutine of a controller writes the slot once,
  when \<^verbatim>\<open>Start\<close> returns. A schedule is the list of these steps in the order in which they
  happen: a call of the start function with its \<^verbatim>\<open>isStartup\<close> flag, or the return of
  \<^verbatim>\<open>Start\<close> in a goroutine with its error.
\<close>

datatype lifecycleStep = StartCall bool | StartReturned "error option"

fun runLifecycle ::
  "('x, 'st) ThirdPartyCrdReconciler \<Rightarrow> lifecycleStep list \<Rightarrow> watchState \<Rightarrow>
     watchState \<times> lifecycleEvent list"
where
  "runLifecycle crdReconciler [] s = (s, [])"
| "runLifecycle crdReconciler (StartCall isStartup # steps) s =
     (case maybeStartWatchingThirdPartyResources crdReconciler isStartup s of
        (s1, evs1) \<Rightarrow>
          (case runLifecycle crdReconciler steps s1 of (s2, evs2) \<Rightarrow> (s2, evs1 @ evs2)))"
| "runLifecycle crdReconciler (StartReturned err # steps) s =
     (case resourceControllerStartReturned err s of
        (s1, evs1) \<Rightarrow>
          (case runLifecycle crdReconciler steps s1 of (s2, evs2) \<Rightarrow> (s2, evs1 @ evs2)))"

fun isStartCall :: "lifecycleStep \<Rightarrow> bool" where
  "isStartCall (StartCall isStartup) = True"
| "isStartCall (StartReturned err) = False"

text \<open>The controllers started in a run are its \<open>GoControllerStart\<close> events; the controllers
  whose goroutine has ended are the two log lines that end the goroutine.\<close>

fun isGoControllerStart :: "lifecycleEvent \<Rightarrow> bool" where
  "isGoControllerStart (GoControllerStart c) = True"
| "isGoControllerStart e = False"

fun isControllerEnd :: "lifecycleEvent \<Rightarrow> bool" where
  "isControllerEnd (Err UnableToStartController) = True"
| "isControllerEnd (Info ControllerHasBeenStopped) = True"
| "isControllerEnd e = False"

definition controllersStarted :: "lifecycleEvent list \<Rightarrow> nat" where
  "controllersStarted evs = length (filter isGoControllerStart evs)"

definition controllersEnded :: "lifecycleEvent list \<Rightarrow> nat" where
  "controllersEnded evs = length (filter isControllerEnd evs)"

definition handleSet :: "watchState \<Rightarrow> nat" where
  "handleSet s = (case controllerStopFunction s of None \<Rightarrow> 0 | Some c \<Rightarrow> 1)"

section \<open>The retry loop, unrolled\<close>

text \<open>Both call sites run the loop with three steps and a factor that is not zero; there the
  loop is three nested runs of the function.\<close>

lemma Step_Steps: "0 < Steps b \<Longrightarrow> Steps (snd (Step b)) = Steps b - 1"
  by (simp add: Step_def Let_def)

lemma Step_fst: "0 < Steps b \<Longrightarrow> fst (Step b) = Duration b"
  by (simp add: Step_def Let_def)

lemma Step_Duration: "0 < Steps b \<Longrightarrow> Factor b \<noteq> 0 \<Longrightarrow> Duration (snd (Step b)) = \<lfloor>of_int (Duration b) * Factor b\<rfloor>"
  by (simp add: Step_def Let_def)

lemma ExponentialBackoff_last:
  "Steps b = 1 \<Longrightarrow>
   ExponentialBackoff b c s =
     (case c s of ((ok, err), s1, evs1) \<Rightarrow>
        if err \<noteq> None \<or> ok then (err, s1, evs1) else (Some ErrWaitTimeout, s1, evs1))"
  by (subst ExponentialBackoff.simps) (simp split: prod.splits)

lemma ExponentialBackoff_more:
  "1 < Steps b \<Longrightarrow>
   ExponentialBackoff b c s =
     (case c s of ((ok, err), s1, evs1) \<Rightarrow>
        if err \<noteq> None \<or> ok then (err, s1, evs1)
        else (case ExponentialBackoff (snd (Step b)) c s1 of
                (res, s2, evs2) \<Rightarrow> (res, s2, evs1 @ Sleep (Duration b) # evs2)))"
  by (subst ExponentialBackoff.simps) (simp add: Step_fst split: prod.splits)

lemma OnError_loop_last:
  "Steps b = 1 \<Longrightarrow>
   ExponentialBackoff b (OnError_condition retriable fn) (s, l) =
     (case fn s of
        (None, s1, e) \<Rightarrow> (None, (s1, l), e)
      | (Some err, s1, e) \<Rightarrow>
          if retriable err then (Some ErrWaitTimeout, (s1, Some err), e)
          else (Some err, (s1, l), e))"
  by (simp add: ExponentialBackoff_last OnError_condition_def split: prod.splits option.splits)

lemma OnError_loop_more:
  "1 < Steps b \<Longrightarrow>
   ExponentialBackoff b (OnError_condition retriable fn) (s, l) =
     (case fn s of
        (None, s1, e) \<Rightarrow> (None, (s1, l), e)
      | (Some err, s1, e) \<Rightarrow>
          if retriable err
          then (case ExponentialBackoff (snd (Step b)) (OnError_condition retriable fn) (s1, Some err) of
                  (res, s2, e2) \<Rightarrow> (res, s2, e @ Sleep (Duration b) # e2))
          else (Some err, (s1, l), e))"
  by (simp add: ExponentialBackoff_more OnError_condition_def split: prod.splits option.splits)

lemma OnError_3:
  assumes b: "Steps b = 3" "Factor b \<noteq> 0"
      and nt: "\<And>s. fst (fn s) = Some ErrWaitTimeout \<Longrightarrow> retriable ErrWaitTimeout"
  shows "OnError b retriable fn s =
     (case fn s of
        (None, s1, e1) \<Rightarrow> (None, s1, e1)
      | (Some err1, s1, e1) \<Rightarrow>
          if \<not> retriable err1 then (Some err1, s1, e1)
          else (case fn s1 of
                  (None, s2, e2) \<Rightarrow> (None, s2, e1 @ Sleep (Duration b) # e2)
                | (Some err2, s2, e2) \<Rightarrow>
                    if \<not> retriable err2 then (Some err2, s2, e1 @ Sleep (Duration b) # e2)
                    else (case fn s2 of
                            (None, s3, e3) \<Rightarrow>
                              (None, s3, e1 @ Sleep (Duration b) # e2 @
                                 Sleep \<lfloor>of_int (Duration b) * Factor b\<rfloor> # e3)
                          | (Some err3, s3, e3) \<Rightarrow>
                              (Some err3, s3, e1 @ Sleep (Duration b) # e2 @
                                 Sleep \<lfloor>of_int (Duration b) * Factor b\<rfloor> # e3))))"
proof -
  let ?b1 = "snd (Step b)"
  let ?b2 = "snd (Step ?b1)"
  have s1: "Steps ?b1 = 2" and d1: "Duration ?b1 = \<lfloor>of_int (Duration b) * Factor b\<rfloor>"
    using b by (simp_all add: Step_Steps Step_Duration)
  have s2: "Steps ?b2 = 1" using s1 by (simp add: Step_Steps)
  have nt1: "\<not> retriable e \<Longrightarrow> fn t = (Some e, t', evs) \<Longrightarrow> e \<noteq> ErrWaitTimeout" for e t t' evs
    using nt[of t] by auto
  have l3: "ExponentialBackoff ?b2 (OnError_condition retriable fn) (t, l) =
     (case fn t of
        (None, s1, e) \<Rightarrow> (None, (s1, l), e)
      | (Some err, s1, e) \<Rightarrow>
          if retriable err then (Some ErrWaitTimeout, (s1, Some err), e)
          else (Some err, (s1, l), e))" for t l
    by (rule OnError_loop_last[OF s2])
  have l2: "ExponentialBackoff ?b1 (OnError_condition retriable fn) (t, l) =
     (case fn t of
        (None, s1, e) \<Rightarrow> (None, (s1, l), e)
      | (Some err, s1, e) \<Rightarrow>
          if retriable err
          then (case ExponentialBackoff ?b2 (OnError_condition retriable fn) (s1, Some err) of
                  (res, s2, e2) \<Rightarrow> (res, s2, e @ Sleep \<lfloor>of_int (Duration b) * Factor b\<rfloor> # e2))
          else (Some err, (s1, l), e))" for t l
    unfolding d1[symmetric] using OnError_loop_more[of ?b1 retriable fn t l] s1 by simp
  have l1: "ExponentialBackoff b (OnError_condition retriable fn) (t, l) =
     (case fn t of
        (None, s1, e) \<Rightarrow> (None, (s1, l), e)
      | (Some err, s1, e) \<Rightarrow>
          if retriable err
          then (case ExponentialBackoff ?b1 (OnError_condition retriable fn) (s1, Some err) of
                  (res, s2, e2) \<Rightarrow> (res, s2, e @ Sleep (Duration b) # e2))
          else (Some err, (s1, l), e))" for t l
    using OnError_loop_more[of b retriable fn t l] b by simp
  obtain r1 t1 e1 where f1: "fn s = (r1, t1, e1)" by (cases "fn s") auto
  obtain r2 t2 e2 where f2: "fn t1 = (r2, t2, e2)" by (cases "fn t1") auto
  obtain r3 t3 e3 where f3: "fn t2 = (r3, t3, e3)" by (cases "fn t2") auto
  show ?thesis
  proof (cases r1)
    case None
    then show ?thesis by (simp add: OnError_def l1 f1 Interrupted_def)
  next
    case (Some err1)
    note r1 = this
    show ?thesis
    proof (cases "retriable err1")
      case False
      then show ?thesis using nt1[OF False, of s t1 e1] f1 r1
        by (simp add: OnError_def l1 Interrupted_def)
    next
      case True
      note ret1 = this
      show ?thesis
      proof (cases r2)
        case None
        then show ?thesis using f1 f2 r1 ret1 by (simp add: OnError_def l1 l2 Interrupted_def)
      next
        case (Some err2)
        note r2 = this
        show ?thesis
        proof (cases "retriable err2")
          case False
          then show ?thesis using nt1[OF False, of t1 t2 e2] f1 f2 r1 r2 ret1
            by (simp add: OnError_def l1 l2 Interrupted_def)
        next
          case True
          note ret2 = this
          show ?thesis
          proof (cases r3)
            case None
            then show ?thesis using f1 f2 f3 r1 r2 ret1 ret2
              by (simp add: OnError_def l1 l2 l3 Interrupted_def)
          next
            case (Some err3)
            then show ?thesis using f1 f2 f3 r1 r2 ret1 ret2 nt1[of err3 t2 t3 e3]
              by (cases "retriable err3") (simp_all add: OnError_def l1 l2 l3 Interrupted_def)
          qed
        qed
      qed
    qed
  qed
qed


section \<open>The example reconciler, field by field\<close>

lemma exampleReconciler_simps [simp]:
  "KindDisplayName (exampleReconciler api updateErr mapped) = ''Perses dashboard''"
  "ShortName (exampleReconciler api updateErr mapped) = ''dashboard''"
  "ControllerName (exampleReconciler api updateErr mapped) = ''dash0_perses_dashboard_controller''"
  "GetAuthToken (exampleReconciler api updateErr mapped) = ''token''"
  "GetApiConfig (exampleReconciler api updateErr mapped) =
     Some \<lparr>Endpoint = ''https://api.example'', Dataset = []\<rparr>"
  "GetHttpRetryDelay (exampleReconciler api updateErr mapped) = 2000000000"
  "IsSynchronizationEnabled (exampleReconciler api updateErr mapped) m"
  "MapResourceToHttpRequests (exampleReconciler api updateErr mapped) pre action = mapped"
  "UpdateSynchronizationResultsInStatus (exampleReconciler api updateErr mapped) m qualifiedName
     status itemsTotal succeeded errs issues =
     m\<lparr>Status := Some (status, itemsTotal, succeeded, errs, issues)\<rparr>"
  "HttpClient_Do (exampleReconciler api updateErr mapped) req n = (api (URL req) n, Suc n)"
  "K8sClient_Get (exampleReconciler api updateErr mapped) ns name n = (Inr exampleMonitoring, Suc n)"
  "K8sClient_Status_Update (exampleReconciler api updateErr mapped) m n = (updateErr n, Suc n)"
  "FindUniqueOrMostRecentResourceInScope (exampleReconciler api updateErr mapped) ns n =
     (Inr (Some exampleMonitoring), Suc n)"
  by (simp_all add: exampleReconciler_def)

lemma exampleObject_simps [simp]:
  "GetNamespace exampleObject = ''ns''" "GetName exampleObject = ''board''"
  by (simp_all add: exampleObject_def)

lemma exampleMonitoring_simps [simp]:
  "Namespace exampleMonitoring = ''ns''" "Name exampleMonitoring = ''dash0''"
  "Status exampleMonitoring = None"
  by (simp_all add: exampleMonitoring_def)


section \<open>Lengths of maps\<close>

lemma len_map_eq_0: "len_map m = 0 \<longleftrightarrow> m = None \<or> m = Some fmempty"
proof (cases m)
  case None
  then show ?thesis by (simp add: len_map_def)
next
  case (Some f)
  have "fmdom f = {||} \<longleftrightarrow> f = fmempty"
    by (metis fmdom_empty fmrestrict_fset_dom fmrestrict_fset_null)
  then show ?thesis using Some by (simp add: len_map_def)
qed

lemma fmupd_not_empty: "fmupd k v f \<noteq> fmempty"
  by (metis fmdom_empty fmdom_fmupd finsert_not_fempty)

lemma len_map_simps [simp]:
  "len_map None = 0" "len_map (Some fmempty) = 0"
  by (simp_all add: len_map_eq_0)

lemma len_map_fmupd [simp]:
  "0 < len_map (Some (fmupd k v f))" "len_map (Some (fmupd k v f)) \<noteq> 0"
  using len_map_eq_0[of "Some (fmupd k v f)"] fmupd_not_empty[of k v f] by simp_all

lemma len_slice_simps [simp]:
  "len_slice None = 0" "len_slice (Some xs) = length xs"
  by (simp_all add: len_slice_def)

section \<open>The status reporter\<close>

lemma statusBackoff_simps:
  "Steps statusBackoff = 3" "Factor statusBackoff = 13 / 10" "Duration statusBackoff = 1000000000"
  by (simp_all add: statusBackoff_def)

lemma statusWriteAttempt_update:
  assumes "statusWriteAttempt rr q r n succ vi se s = (err, s', evs)"
      and "K8sClientStatusUpdate m \<in> set evs"
  shows "\<exists>fetched. m = UpdateSynchronizationResultsInStatus rr fetched q r n succ se vi"
  using assms
  by (auto simp: statusWriteAttempt_def Let_def split: prod.splits sum.splits option.splits)

lemma writeSynchronizationResult_unrolled:
  "writeSynchronizationResult rr mr tpr n succ vi se x =
     (let fn = statusWriteAttempt rr (GetNamespace tpr @ ''/'' @ GetName tpr)
                 (synchronizationResult succ vi se) n succ vi se
      in case fn (x, mr) of
           (None, (x1, m1), e1) \<Rightarrow> (x1, e1)
         | (Some err1, s1, e1) \<Rightarrow>
             (case fn s1 of
                (None, (x2, m2), e2) \<Rightarrow> (x2, e1 @ Sleep 1000000000 # e2)
              | (Some err2, s2, e2) \<Rightarrow>
                  (case fn s2 of
                     (None, (x3, m3), e3) \<Rightarrow>
                       (x3, e1 @ Sleep 1000000000 # e2 @ Sleep 1300000000 # e3)
                   | (Some err3, (x3, m3), e3) \<Rightarrow>
                       (x3, e1 @ Sleep 1000000000 # e2 @ Sleep 1300000000 # e3 @
                            [LogError FinallyFailedNoMoreRetries]))))"
  unfolding writeSynchronizationResult_def Let_def
  by (subst OnError_3) (auto simp: statusBackoff_simps split: prod.splits option.splits)

text \<open>
  Claim C1. The result of an instance, as \<^verbatim>\<open>writeSynchronizationResult\<close> computes it, is
  \<open>Successful\<close> exactly when the list of synchronized items is not empty and both maps are
  empty, \<open>PartiallySuccessful\<close> exactly when the list is not empty and one of the maps is
  not, and \<open>Failed\<close> exactly when the list is empty, whatever the maps hold. Every status
  that the function writes to the cluster is the merge of the collaborator with this
  result.
\<close>

theorem synchronizationResult_classification:
  "(synchronizationResult succ issues errs = Successful \<longleftrightarrow>
      len_slice succ > 0 \<and> len_map issues = 0 \<and> len_map errs = 0) \<and>
   (synchronizationResult succ issues errs = PartiallySuccessful \<longleftrightarrow>
      len_slice succ > 0 \<and> (len_map issues > 0 \<or> len_map errs > 0)) \<and>
   (synchronizationResult succ issues errs = Failed \<longleftrightarrow> len_slice succ = 0) \<and>
   (\<forall>m. K8sClientStatusUpdate m \<in> set (snd (writeSynchronizationResult rr mr tpr n succ issues errs x)) \<longrightarrow>
        (\<exists>fetched. m = UpdateSynchronizationResultsInStatus rr fetched
                          (GetNamespace tpr @ ''/'' @ GetName tpr)
                          (synchronizationResult succ issues errs) n succ errs issues))"
proof -
  let ?fn = "statusWriteAttempt rr (GetNamespace tpr @ ''/'' @ GetName tpr)
                 (synchronizationResult succ issues errs) n succ issues errs"
  have cls: "(synchronizationResult succ issues errs = Successful \<longleftrightarrow>
      len_slice succ > 0 \<and> len_map issues = 0 \<and> len_map errs = 0) \<and>
   (synchronizationResult succ issues errs = PartiallySuccessful \<longleftrightarrow>
      len_slice succ > 0 \<and> (len_map issues > 0 \<or> len_map errs > 0)) \<and>
   (synchronizationResult succ issues errs = Failed \<longleftrightarrow> len_slice succ = 0)"
    by (auto simp: synchronizationResult_def)
  have upd: "\<exists>fetched. m = UpdateSynchronizationResultsInStatus rr fetched
                          (GetNamespace tpr @ ''/'' @ GetName tpr)
                          (synchronizationResult succ issues errs) n succ errs issues"
    if m: "K8sClientStatusUpdate m \<in> set (snd (writeSynchronizationResult rr mr tpr n succ issues errs x))"
    for m
  proof -
    obtain r1 t1 e1 where f1: "?fn (x, mr) = (r1, t1, e1)" by (cases "?fn (x, mr)") auto
    obtain r2 t2 e2 where f2: "?fn t1 = (r2, t2, e2)" by (cases "?fn t1") auto
    obtain r3 t3 e3 where f3: "?fn t2 = (r3, t3, e3)" by (cases "?fn t2") auto
    from m have "K8sClientStatusUpdate m \<in> set e1 \<union> set e2 \<union> set e3"
      unfolding writeSynchronizationResult_unrolled Let_def
      using f1 f2 f3 by (auto split: option.splits prod.splits)
    then show ?thesis
      using statusWriteAttempt_update[OF f1] statusWriteAttempt_update[OF f2]
        statusWriteAttempt_update[OF f3] by blast
  qed
  have "\<forall>m. K8sClientStatusUpdate m \<in> set (snd (writeSynchronizationResult rr mr tpr n succ issues errs x)) \<longrightarrow>
        (\<exists>fetched. m = UpdateSynchronizationResultsInStatus rr fetched
                          (GetNamespace tpr @ ''/'' @ GetName tpr)
                          (synchronizationResult succ issues errs) n succ errs issues)"
    using upd by blast
  with cls show ?thesis by (intro conjI) (elim conjE, assumption)+
qed


text \<open>The three examples of the specification, and a run that writes a partially successful
  result.\<close>

theorem synchronizationResult_classification_witness:
  "synchronizationResult (Some [''a'', ''b'']) (Some fmempty) (Some fmempty) = Successful \<and>
   synchronizationResult (Some [''a'']) (Some fmempty) (Some (fmupd ''c'' ''x'' fmempty)) = PartiallySuccessful \<and>
   synchronizationResult None (Some fmempty) (Some (fmupd ''c'' ''x'' fmempty)) = Failed \<and>
   K8sClientStatusUpdate (exampleMonitoring\<lparr>Status := Some (PartiallySuccessful, 2, Some [''a''], Some (fmupd ''c'' ''x'' fmempty), None)\<rparr>)
     \<in> set (snd (writeSynchronizationResult (exampleReconciler (respond 200) (\<lambda>n. None) (2, [], None, None))
                   exampleMonitoring exampleObject 2 (Some [''a'']) None (Some (fmupd ''c'' ''x'' fmempty)) 0)) \<and>
   (\<exists>fetched. exampleMonitoring\<lparr>Status := Some (PartiallySuccessful, 2, Some [''a''], Some (fmupd ''c'' ''x'' fmempty), None)\<rparr> =
        UpdateSynchronizationResultsInStatus (exampleReconciler (respond 200) (\<lambda>n. None) (2, [], None, None)) fetched
          (GetNamespace exampleObject @ ''/'' @ GetName exampleObject)
          (synchronizationResult (Some [''a'']) None (Some (fmupd ''c'' ''x'' fmempty))) 2 (Some [''a''])
          (Some (fmupd ''c'' ''x'' fmempty)) None)"
proof -
  have run: "K8sClientStatusUpdate (exampleMonitoring\<lparr>Status := Some (PartiallySuccessful, 2, Some [''a''], Some (fmupd ''c'' ''x'' fmempty), None)\<rparr>)
     \<in> set (snd (writeSynchronizationResult (exampleReconciler (respond 200) (\<lambda>n. None) (2, [], None, None))
                   exampleMonitoring exampleObject 2 (Some [''a'']) None (Some (fmupd ''c'' ''x'' fmempty)) 0))"
    by (simp add: writeSynchronizationResult_unrolled statusWriteAttempt_def exampleReconciler_def
          synchronizationResult_def Let_def)
  let ?R = "exampleReconciler (respond 200) (\<lambda>n. None) (2, [], None, None)"
  have a: "synchronizationResult (Some [''a'', ''b'']) (Some fmempty) (Some fmempty) = Successful"
    using synchronizationResult_classification[of "Some [''a'', ''b'']" "Some fmempty" "Some fmempty"
        ?R exampleMonitoring exampleObject 2 0]
    by simp
  have b: "synchronizationResult (Some [''a'']) (Some fmempty) (Some (fmupd ''c'' ''x'' fmempty)) = PartiallySuccessful"
    using synchronizationResult_classification[of "Some [''a'']" "Some fmempty" "Some (fmupd ''c'' ''x'' fmempty)"
        ?R exampleMonitoring exampleObject 2 0]
    by simp
  have c: "synchronizationResult None (Some fmempty) (Some (fmupd ''c'' ''x'' fmempty)) = Failed"
    using synchronizationResult_classification[of None "Some fmempty" "Some (fmupd ''c'' ''x'' fmempty)"
        ?R exampleMonitoring exampleObject 2 0]
    by simp
  have d: "\<exists>fetched. exampleMonitoring\<lparr>Status := Some (PartiallySuccessful, 2, Some [''a''], Some (fmupd ''c'' ''x'' fmempty), None)\<rparr> =
        UpdateSynchronizationResultsInStatus ?R fetched
          (GetNamespace exampleObject @ ''/'' @ GetName exampleObject)
          (synchronizationResult (Some [''a'']) None (Some (fmupd ''c'' ''x'' fmempty))) 2 (Some [''a''])
          (Some (fmupd ''c'' ''x'' fmempty)) None"
    using run synchronizationResult_classification[of "Some [''a'']" None "Some (fmupd ''c'' ''x'' fmempty)"
        ?R exampleMonitoring exampleObject 2 0]
    by blast
  show ?thesis using a b c run d by (intro conjI)
qed


section \<open>Precondition validation\<close>

text \<open>
  Claim C4, as amended. \<^verbatim>\<open>validatePreconditions\<close> runs its checks in this order: (1) the
  lookup \<^verbatim>\<open>util.FindUniqueOrMostRecentResourceInScope\<close> returns, without an error, a
  monitoring resource of the namespace of the instance; (2) synchronization is enabled for
  the kind; (3) the API configuration is present with an endpoint that is not empty; (4) the
  auth token is not empty. The first check that fails decides the outcome alone, whatever
  the later checks would say: the result is the one that says not to synchronize, and the
  one log line is the line of that check. When the four checks pass the result says to
  synchronize, carries the resource that the lookup returned, and nothing is logged. The
  function has no error result; it returns a result on every input. That the monitoring
  resource is the only one of its namespace is not among the checks: the function takes
  whatever resource the lookup returns.
\<close>

theorem validatePreconditions_checks_in_order:
  fixes resourceReconciler :: "('x, 'st) ThirdPartyResourceReconciler"
  assumes find: "FindUniqueOrMostRecentResourceInScope resourceReconciler (GetNamespace tpr) x = (found, x1)"
  shows
   "((\<exists>e. found = Inl e) \<longrightarrow>
       validatePreconditions D resourceReconciler tpr x =
         (doNotSynchronize, x1,
          [FindMonitoringResource (GetNamespace tpr), LogError MonitoringResourceLookupFailed])) \<and>
    (found = Inr None \<longrightarrow>
       validatePreconditions D resourceReconciler tpr x =
         (doNotSynchronize, x1,
          [FindMonitoringResource (GetNamespace tpr), LogInfo NoMonitoringResourceInNamespace])) \<and>
    (\<forall>m. found = Inr (Some m) \<and> \<not> IsSynchronizationEnabled resourceReconciler m \<longrightarrow>
       validatePreconditions D resourceReconciler tpr x =
         (doNotSynchronize, x1,
          [FindMonitoringResource (GetNamespace tpr), LogInfo SynchronizationDisabled])) \<and>
    (\<forall>m. found = Inr (Some m) \<and> IsSynchronizationEnabled resourceReconciler m \<and>
         \<not> isValidApiConfig (GetApiConfig resourceReconciler) \<longrightarrow>
       validatePreconditions D resourceReconciler tpr x =
         (doNotSynchronize, x1,
          [FindMonitoringResource (GetNamespace tpr), LogInfo NoApiEndpointProvided])) \<and>
    (\<forall>m. found = Inr (Some m) \<and> IsSynchronizationEnabled resourceReconciler m \<and>
         isValidApiConfig (GetApiConfig resourceReconciler) \<and> GetAuthToken resourceReconciler = [] \<longrightarrow>
       validatePreconditions D resourceReconciler tpr x =
         (doNotSynchronize, x1,
          [FindMonitoringResource (GetNamespace tpr), LogInfo NoAuthTokenSet])) \<and>
    (\<forall>m. found = Inr (Some m) \<and> IsSynchronizationEnabled resourceReconciler m \<and>
         isValidApiConfig (GetApiConfig resourceReconciler) \<and> GetAuthToken resourceReconciler \<noteq> [] \<longrightarrow>
       synchronizeResource (fst (validatePreconditions D resourceReconciler tpr x)) \<and>
       monitoringResource (fst (validatePreconditions D resourceReconciler tpr x)) = Some m \<and>
       snd (validatePreconditions D resourceReconciler tpr x) = (x1, [FindMonitoringResource (GetNamespace tpr)])) \<and>
    (isValidApiConfig (GetApiConfig resourceReconciler) \<longleftrightarrow>
       (\<exists>c. GetApiConfig resourceReconciler = Some c \<and> Endpoint c \<noteq> [])) \<and>
    \<not> synchronizeResource (doNotSynchronize :: 'st preconditionValidationResult)"
  using find
  by (auto simp: validatePreconditions_def isValidApiConfig_def doNotSynchronize_def Let_def
           split: option.splits)

text \<open>The four checks passing, and each check failing first while all later ones would
  fail too.\<close>

theorem validatePreconditions_checks_in_order_witness:
  "FindUniqueOrMostRecentResourceInScope (exampleReconciler (respond 200) (\<lambda>n. None) (0, [], None, None))
     (GetNamespace exampleObject) 0 = (Inr (Some exampleMonitoring), 1) \<and>
   synchronizeResource (fst (validatePreconditions ''default''
     (exampleReconciler (respond 200) (\<lambda>n. None) (0, [], None, None)) exampleObject 0)) \<and>
   snd (validatePreconditions ''default''
     (exampleReconciler (respond 200) (\<lambda>n. None) (0, [], None, None)) exampleObject 0) =
     (1, [FindMonitoringResource ''ns'']) \<and>
   validatePreconditions ''default''
     ((exampleReconciler (respond 200) (\<lambda>n. None) (0, [], None, None))\<lparr>GetAuthToken := []\<rparr>)
     exampleObject 0 =
     (doNotSynchronize, 1, [FindMonitoringResource ''ns'', LogInfo NoAuthTokenSet]) \<and>
   validatePreconditions ''default''
     ((exampleReconciler (respond 200) (\<lambda>n. None) (0, [], None, None))
        \<lparr>GetAuthToken := [], GetApiConfig := None\<rparr>)
     exampleObject 0 =
     (doNotSynchronize, 1, [FindMonitoringResource ''ns'', LogInfo NoApiEndpointProvided]) \<and>
   validatePreconditions ''default''
     ((exampleReconciler (respond 200) (\<lambda>n. None) (0, [], None, None))
        \<lparr>GetAuthToken := [], GetApiConfig := None, IsSynchronizationEnabled := (\<lambda>m. False)\<rparr>)
     exampleObject 0 =
     (doNotSynchronize, 1, [FindMonitoringResource ''ns'', LogInfo SynchronizationDisabled]) \<and>
   validatePreconditions ''default''
     ((exampleReconciler (respond 200) (\<lambda>n. None) (0, [], None, None))
        \<lparr>GetAuthToken := [], GetApiConfig := None, IsSynchronizationEnabled := (\<lambda>m. False),
         FindUniqueOrMostRecentResourceInScope := (\<lambda>ns n. (Inr None, Suc n))\<rparr>)
     exampleObject 0 =
     (doNotSynchronize, 1, [FindMonitoringResource ''ns'', LogInfo NoMonitoringResourceInNamespace]) \<and>
   validatePreconditions ''default''
     ((exampleReconciler (respond 200) (\<lambda>n. None) (0, [], None, None))
        \<lparr>GetAuthToken := [], GetApiConfig := None, IsSynchronizationEnabled := (\<lambda>m. False),
         FindUniqueOrMostRecentResourceInScope := (\<lambda>ns n. (Inl (PlainError ''forbidden''), Suc n))\<rparr>)
     exampleObject 0 =
     (doNotSynchronize, 1, [FindMonitoringResource ''ns'', LogError MonitoringResourceLookupFailed])"
proof -
  let ?R = "exampleReconciler (respond 200) (\<lambda>n. None) (0, [], None, None)"
  let ?Rd = "?R\<lparr>GetAuthToken := []\<rparr>"
  let ?Rc = "?R\<lparr>GetAuthToken := [], GetApiConfig := None\<rparr>"
  let ?Rb = "?R\<lparr>GetAuthToken := [], GetApiConfig := None, IsSynchronizationEnabled := (\<lambda>m. False)\<rparr>"
  let ?Ra = "?R\<lparr>GetAuthToken := [], GetApiConfig := None, IsSynchronizationEnabled := (\<lambda>m. False),
         FindUniqueOrMostRecentResourceInScope := (\<lambda>ns n. (Inr None, Suc n))\<rparr>"
  let ?Rz = "?R\<lparr>GetAuthToken := [], GetApiConfig := None, IsSynchronizationEnabled := (\<lambda>m. False),
         FindUniqueOrMostRecentResourceInScope := (\<lambda>ns n. (Inl (PlainError ''forbidden''), Suc n))\<rparr>"
  have f: "FindUniqueOrMostRecentResourceInScope ?R (GetNamespace exampleObject) 0 =
             (Inr (Some exampleMonitoring), 1)"
    by simp
  have f4: "FindUniqueOrMostRecentResourceInScope ?Rd (GetNamespace exampleObject) 0 =
             (Inr (Some exampleMonitoring), 1)"
    by simp
  have f3: "FindUniqueOrMostRecentResourceInScope ?Rc (GetNamespace exampleObject) 0 =
             (Inr (Some exampleMonitoring), 1)"
    by simp
  have f2: "FindUniqueOrMostRecentResourceInScope ?Rb (GetNamespace exampleObject) 0 =
             (Inr (Some exampleMonitoring), 1)"
    by simp
  have f1: "FindUniqueOrMostRecentResourceInScope ?Ra (GetNamespace exampleObject) 0 = (Inr None, 1)"
    by simp
  have f0: "FindUniqueOrMostRecentResourceInScope ?Rz (GetNamespace exampleObject) 0 =
             (Inl (PlainError ''forbidden''), 1)"
    by simp
  have a: "synchronizeResource (fst (validatePreconditions ''default'' ?R exampleObject 0)) \<and>
           snd (validatePreconditions ''default'' ?R exampleObject 0) = (1, [FindMonitoringResource ''ns''])"
    using validatePreconditions_checks_in_order[OF f, of "''default''"]
    by (simp add: isValidApiConfig_def)
  have b: "validatePreconditions ''default'' ?Rd exampleObject 0 =
     (doNotSynchronize, 1, [FindMonitoringResource ''ns'', LogInfo NoAuthTokenSet])"
    using validatePreconditions_checks_in_order[OF f4, of "''default''"]
    by (simp add: isValidApiConfig_def)
  have c: "validatePreconditions ''default'' ?Rc exampleObject 0 =
     (doNotSynchronize, 1, [FindMonitoringResource ''ns'', LogInfo NoApiEndpointProvided])"
    using validatePreconditions_checks_in_order[OF f3, of "''default''"]
    by (simp add: isValidApiConfig_def)
  have d: "validatePreconditions ''default'' ?Rb exampleObject 0 =
     (doNotSynchronize, 1, [FindMonitoringResource ''ns'', LogInfo SynchronizationDisabled])"
    using validatePreconditions_checks_in_order[OF f2, of "''default''"]
    by (simp add: isValidApiConfig_def)
  have e: "validatePreconditions ''default'' ?Ra exampleObject 0 =
     (doNotSynchronize, 1, [FindMonitoringResource ''ns'', LogInfo NoMonitoringResourceInNamespace])"
    using validatePreconditions_checks_in_order[OF f1, of "''default''"]
    by simp
  have g: "validatePreconditions ''default'' ?Rz exampleObject 0 =
     (doNotSynchronize, 1, [FindMonitoringResource ''ns'', LogError MonitoringResourceLookupFailed])"
    using validatePreconditions_checks_in_order[OF f0, of "''default''"]
    by simp
  show ?thesis using f a b c d e g by simp
qed

text \<open>
  Claim C4 as it was stated asks for more in check (1): a monitoring resource that exists and
  is unique in the namespace. With two monitoring resources in the namespace and a lookup
  that returns the more recent one, as the name of the lookup says, the result says to
  synchronize.
\<close>

theorem validatePreconditions_not_unique_counterexample:
  "Namespace olderMonitoring = GetNamespace exampleObject \<and>
   Namespace exampleMonitoring = GetNamespace exampleObject \<and>
   olderMonitoring \<noteq> exampleMonitoring \<and>
   validatePreconditions ''default''
     ((exampleReconciler (respond 200) (\<lambda>n. None) (0, [], None, None))
        \<lparr>FindUniqueOrMostRecentResourceInScope :=
           lookupUniqueOrMostRecent [(1, olderMonitoring), (2, exampleMonitoring)]\<rparr>)
     exampleObject 0 =
     (\<lparr>synchronizeResource = True,
       thirdPartyResource = Some exampleObject,
       monitoringResource = Some exampleMonitoring,
       authToken = ''token'',
       apiEndpoint = ''https://api.example'',
       dataset = ''default'',
       k8sNamespace = ''ns'',
       k8sName = ''board''\<rparr>,
      1, [FindMonitoringResource ''ns''])"
  by (simp add: validatePreconditions_def lookupUniqueOrMostRecent_def olderMonitoring_def
        exampleMonitoring_def isValidApiConfig_def Let_def)

text \<open>
  Claim C9. When the four checks pass, the dataset of the result is the default constant if
  the \<open>Dataset\<close> of the loaded API configuration is empty, and that \<open>Dataset\<close> otherwise.
\<close>

theorem validatePreconditions_dataset:
  assumes "FindUniqueOrMostRecentResourceInScope rr (GetNamespace tpr) x = (Inr (Some m), x1)"
      and "IsSynchronizationEnabled rr m"
      and "GetApiConfig rr = Some c" and "Endpoint c \<noteq> []"
      and "GetAuthToken rr \<noteq> []"
  shows "synchronizeResource (fst (validatePreconditions DatasetDefault rr tpr x)) \<and>
         (Dataset c = [] \<longrightarrow> dataset (fst (validatePreconditions DatasetDefault rr tpr x)) = DatasetDefault) \<and>
         (Dataset c \<noteq> [] \<longrightarrow> dataset (fst (validatePreconditions DatasetDefault rr tpr x)) = Dataset c)"
  using assms
  by (simp add: validatePreconditions_def isValidApiConfig_def Let_def)

theorem validatePreconditions_dataset_witness:
  "FindUniqueOrMostRecentResourceInScope
      (exampleReconciler (respond 200) (\<lambda>n. None) (0, [], None, None)) (GetNamespace exampleObject) 0 =
      (Inr (Some exampleMonitoring), 1) \<and>
   GetApiConfig (exampleReconciler (respond 200) (\<lambda>n. None) (0, [], None, None)) =
      Some \<lparr>Endpoint = ''https://api.example'', Dataset = []\<rparr> \<and>
   GetAuthToken (exampleReconciler (respond 200) (\<lambda>n. None) (0, [], None, None)) = ''token'' \<and>
   dataset (fst (validatePreconditions ''default''
      (exampleReconciler (respond 200) (\<lambda>n. None) (0, [], None, None)) exampleObject 0)) = ''default'' \<and>
   dataset (fst (validatePreconditions ''default''
      ((exampleReconciler (respond 200) (\<lambda>n. None) (0, [], None, None))
         \<lparr>GetApiConfig := Some \<lparr>Endpoint = ''https://api.example'', Dataset = ''production''\<rparr>\<rparr>)
      exampleObject 0)) = ''production''"
proof -
  let ?R = "exampleReconciler (respond 200) (\<lambda>n. None) (0, [], None, None)"
  let ?R' = "?R\<lparr>GetApiConfig := Some \<lparr>Endpoint = ''https://api.example'', Dataset = ''production''\<rparr>\<rparr>"
  have a: "dataset (fst (validatePreconditions ''default'' ?R exampleObject 0)) = ''default''"
    using validatePreconditions_dataset[of ?R exampleObject 0 exampleMonitoring 1
            "\<lparr>Endpoint = ''https://api.example'', Dataset = []\<rparr>" "''default''"]
    by simp
  have b: "dataset (fst (validatePreconditions ''default'' ?R' exampleObject 0)) = ''production''"
    using validatePreconditions_dataset[of ?R' exampleObject 0 exampleMonitoring 1
            "\<lparr>Endpoint = ''https://api.example'', Dataset = ''production''\<rparr>" "''default''"]
    by simp
  show ?thesis using a b by simp
qed

section \<open>The lifecycle of the watch\<close>

text \<open>
  Claim C6. Stopping when no stop function is set, and starting when the reconciler is
  already watching, change nothing: the state is returned as it was, and apart from taking
  and releasing the lock (and, for the stop, one log line) nothing happens: no controller is
  made, no informer removed, no cancel function called.
\<close>

theorem idempotent_stop_and_start:
  "(controllerStopFunction s = None \<longrightarrow>
      stopWatchingThirdPartyResources crdReconciler s = (s, [Lock, Info IgnoringStopAlreadyStopped, Unlock])) \<and>
   (IsWatching crdReconciler s \<longrightarrow>
      maybeStartWatchingThirdPartyResources crdReconciler isStartup s = (s, [Lock, Unlock]))"
  by (simp add: stopWatchingThirdPartyResources_def maybeStartWatchingThirdPartyResources_def)


text \<open>Both no-ops on concrete states, and next to them a start that does start a
  controller.\<close>

theorem idempotent_stop_and_start_witness:
  "controllerStopFunction \<lparr>controllerStopFunction = None, contextsCreated = 1\<rparr> = None \<and>
   stopWatchingThirdPartyResources exampleCrdReconciler \<lparr>controllerStopFunction = None, contextsCreated = 1\<rparr> =
     (\<lparr>controllerStopFunction = None, contextsCreated = 1\<rparr>, [Lock, Info IgnoringStopAlreadyStopped, Unlock]) \<and>
   IsWatching exampleCrdReconciler \<lparr>controllerStopFunction = Some (CancelFunc 0), contextsCreated = 1\<rparr> \<and>
   maybeStartWatchingThirdPartyResources exampleCrdReconciler False
       \<lparr>controllerStopFunction = Some (CancelFunc 0), contextsCreated = 1\<rparr> =
     (\<lparr>controllerStopFunction = Some (CancelFunc 0), contextsCreated = 1\<rparr>, [Lock, Unlock]) \<and>
   maybeStartWatchingThirdPartyResources exampleCrdReconciler False
       \<lparr>controllerStopFunction = None, contextsCreated = 0\<rparr> =
     (\<lparr>controllerStopFunction = Some (CancelFunc 0), contextsCreated = 1\<rparr>,
      [Lock, Info CrdPresentWillWatch, Info SettingUpWatch,
       NewTypedUnmanaged ''dash0_perses_dashboard_controller'', Info CreatedController,
       ControllerWatch, Info CreatedWatch, GoControllerStart (CancelFunc 0), Unlock])"
proof -
  have w: "IsWatching exampleCrdReconciler \<lparr>controllerStopFunction = Some (CancelFunc 0), contextsCreated = 1\<rparr>"
    by (simp add: exampleCrdReconciler_def)
  have start: "maybeStartWatchingThirdPartyResources exampleCrdReconciler False
       \<lparr>controllerStopFunction = None, contextsCreated = 0\<rparr> =
     (\<lparr>controllerStopFunction = Some (CancelFunc 0), contextsCreated = 1\<rparr>,
      [Lock, Info CrdPresentWillWatch, Info SettingUpWatch,
       NewTypedUnmanaged ''dash0_perses_dashboard_controller'', Info CreatedController,
       ControllerWatch, Info CreatedWatch, GoControllerStart (CancelFunc 0), Unlock])"
    by (simp add: Let_def maybeStartWatchingThirdPartyResources_def exampleCrdReconciler_def
          isValidApiConfig_def)
  show ?thesis
    using w start
      idempotent_stop_and_start[of "\<lparr>controllerStopFunction = None, contextsCreated = 1\<rparr>"
        exampleCrdReconciler False]
      idempotent_stop_and_start[of "\<lparr>controllerStopFunction = Some (CancelFunc 0), contextsCreated = 1\<rparr>"
        exampleCrdReconciler False]
    by simp
qed


section \<open>At most one watch\<close>

lemma controllers_simps [simp]:
  "controllersStarted [] = 0" "controllersEnded [] = 0"
  "controllersStarted (evs @ evs') = controllersStarted evs + controllersStarted evs'"
  "controllersEnded (evs @ evs') = controllersEnded evs + controllersEnded evs'"
  by (simp_all add: controllersStarted_def controllersEnded_def)

lemma maybeStart_step:
  assumes "\<And>t. controllerStopFunction t \<noteq> None \<Longrightarrow> IsWatching crdReconciler t"
      and "maybeStartWatchingThirdPartyResources crdReconciler isStartup s = (s1, evs)"
  shows "controllersStarted evs + handleSet s = handleSet s1 \<and> controllersEnded evs = 0"
proof (cases "controllerStopFunction s")
  case None
  then show ?thesis using assms(2)
    by (auto simp: maybeStartWatchingThirdPartyResources_def Let_def handleSet_def
          controllersStarted_def controllersEnded_def split: if_splits option.splits)
next
  case (Some c)
  then have "IsWatching crdReconciler s" using assms(1) by simp
  then show ?thesis using assms(2)
    by (auto simp: maybeStartWatchingThirdPartyResources_def handleSet_def
          controllersStarted_def controllersEnded_def)
qed

lemma startReturned_step:
  assumes "resourceControllerStartReturned err s = (s1, evs)"
  shows "controllersStarted evs = 0 \<and> controllersEnded evs = 1 \<and> handleSet s1 = 0"
  using assms
  by (auto simp: resourceControllerStartReturned_def handleSet_def
        controllersStarted_def controllersEnded_def split: option.splits)

lemma runLifecycle_invariant:
  assumes w: "\<And>t. controllerStopFunction t \<noteq> None \<Longrightarrow> IsWatching crdReconciler t"
  shows "runLifecycle crdReconciler steps s = (s', evs) \<Longrightarrow>
         controllersStarted evs + handleSet s \<le> controllersEnded evs + handleSet s' \<and>
         (list_all isStartCall steps \<longrightarrow> controllersEnded evs = 0)"
proof (induction steps arbitrary: s s' evs)
  case Nil
  then show ?case by simp
next
  case (Cons step steps)
  show ?case
  proof (cases step)
    case (StartCall isStartup)
    obtain s1 e1 where m: "maybeStartWatchingThirdPartyResources crdReconciler isStartup s = (s1, e1)"
      by (cases "maybeStartWatchingThirdPartyResources crdReconciler isStartup s") auto
    obtain s2 e2 where r: "runLifecycle crdReconciler steps s1 = (s2, e2)"
      by (cases "runLifecycle crdReconciler steps s1") auto
    have eq: "s' = s2" "evs = e1 @ e2" using Cons.prems StartCall m r by simp_all
    from maybeStart_step[OF w m] Cons.IH[OF r] show ?thesis
      unfolding eq using StartCall by simp
  next
    case (StartReturned err)
    obtain s1 e1 where m: "resourceControllerStartReturned err s = (s1, e1)"
      by (cases "resourceControllerStartReturned err s") auto
    obtain s2 e2 where r: "runLifecycle crdReconciler steps s1 = (s2, e2)"
      by (cases "runLifecycle crdReconciler steps s1") auto
    have eq: "s' = s2" "evs = e1 @ e2" using Cons.prems StartReturned m r by simp_all
    have "handleSet s \<le> 1" by (simp add: handleSet_def split: option.splits)
    with startReturned_step[OF m] Cons.IH[OF r] show ?thesis
      unfolding eq using StartReturned by simp
  qed
qed

text \<open>
  Claim C5. Take a reconciler whose \<^verbatim>\<open>IsWatching\<close> is true whenever the slot for the stop
  function is filled, and any schedule of start calls and of returns of \<^verbatim>\<open>Start\<close>. At every
  moment of the schedule (after any number \<open>k\<close> of its steps) the controllers started so
  far, with the one that the slot held at the beginning, are at most one more than the
  controllers whose goroutine has ended: at most one controller is active. The slot holds at
  most one cancel function. When the schedule consists of start calls only, at most one
  controller is started at all, and none if the slot was filled at the beginning.
\<close>

theorem at_most_one_watch:
  assumes watching: "\<And>t. controllerStopFunction t \<noteq> None \<Longrightarrow> IsWatching crdReconciler t"
  shows "controllersStarted (snd (runLifecycle crdReconciler (take k steps) s)) + handleSet s
           \<le> controllersEnded (snd (runLifecycle crdReconciler (take k steps) s)) + 1 \<and>
         handleSet (fst (runLifecycle crdReconciler (take k steps) s)) \<le> 1 \<and>
         (list_all isStartCall steps \<longrightarrow>
            controllersStarted (snd (runLifecycle crdReconciler (take k steps) s)) + handleSet s \<le> 1)"
proof -
  obtain s' evs where r: "runLifecycle crdReconciler (take k steps) s = (s', evs)"
    by (cases "runLifecycle crdReconciler (take k steps) s") auto
  have h: "handleSet s' \<le> 1" by (simp add: handleSet_def split: option.splits)
  have t: "list_all isStartCall steps \<Longrightarrow> list_all isStartCall (take k steps)"
    by (auto simp: list_all_iff dest: in_set_takeD)
  from runLifecycle_invariant[OF watching r] h t show ?thesis
    unfolding r by auto
qed

text \<open>Three start calls on a stopped watch: the first starts the controller, the other two
  return at once.\<close>

theorem at_most_one_watch_witness:
  "IsWatching exampleCrdReconciler = (\<lambda>s. controllerStopFunction s \<noteq> None) \<and>
   runLifecycle exampleCrdReconciler [StartCall True, StartCall False, StartCall False]
       \<lparr>controllerStopFunction = None, contextsCreated = 0\<rparr> =
     (\<lparr>controllerStopFunction = Some (CancelFunc 0), contextsCreated = 1\<rparr>,
      [Lock, Info CrdPresentWillWatch, Info SettingUpWatch,
       NewTypedUnmanaged ''dash0_perses_dashboard_controller'', Info CreatedController,
       ControllerWatch, Info CreatedWatch, GoControllerStart (CancelFunc 0), Unlock,
       Lock, Unlock, Lock, Unlock]) \<and>
   controllersStarted (snd (runLifecycle exampleCrdReconciler
       (take 3 [StartCall True, StartCall False, StartCall False])
       \<lparr>controllerStopFunction = None, contextsCreated = 0\<rparr>)) +
     handleSet \<lparr>controllerStopFunction = None, contextsCreated = 0\<rparr> \<le> 1 \<and>
   controllersStarted (snd (runLifecycle exampleCrdReconciler
       [StartCall True, StartCall False, StartCall False]
       \<lparr>controllerStopFunction = None, contextsCreated = 0\<rparr>)) = 1"
proof -
  have w: "IsWatching exampleCrdReconciler = (\<lambda>s. controllerStopFunction s \<noteq> None)"
    by (simp add: exampleCrdReconciler_def)
  have run: "runLifecycle exampleCrdReconciler [StartCall True, StartCall False, StartCall False]
       \<lparr>controllerStopFunction = None, contextsCreated = 0\<rparr> =
     (\<lparr>controllerStopFunction = Some (CancelFunc 0), contextsCreated = 1\<rparr>,
      [Lock, Info CrdPresentWillWatch, Info SettingUpWatch,
       NewTypedUnmanaged ''dash0_perses_dashboard_controller'', Info CreatedController,
       ControllerWatch, Info CreatedWatch, GoControllerStart (CancelFunc 0), Unlock,
       Lock, Unlock, Lock, Unlock])"
    by (simp add: maybeStartWatchingThirdPartyResources_def exampleCrdReconciler_def
          isValidApiConfig_def Let_def)
  have hyp: "controllerStopFunction t \<noteq> None \<Longrightarrow> IsWatching exampleCrdReconciler t" for t
    by (simp add: w)
  have le: "controllersStarted (snd (runLifecycle exampleCrdReconciler
       (take 3 [StartCall True, StartCall False, StartCall False])
       \<lparr>controllerStopFunction = None, contextsCreated = 0\<rparr>)) +
     handleSet \<lparr>controllerStopFunction = None, contextsCreated = 0\<rparr> \<le> 1"
    using at_most_one_watch[of exampleCrdReconciler 3
            "[StartCall True, StartCall False, StartCall False]"
            "\<lparr>controllerStopFunction = None, contextsCreated = 0\<rparr>", OF hyp]
    by simp
  have one: "controllersStarted (snd (runLifecycle exampleCrdReconciler
       [StartCall True, StartCall False, StartCall False]
       \<lparr>controllerStopFunction = None, contextsCreated = 0\<rparr>)) = 1"
    unfolding run by (simp add: controllersStarted_def)
  show ?thesis using w run le one by (intro conjI)
qed

section \<open>Executing one request\<close>

lemma httpAttempts_simps [simp]:
  "httpAttempts [] = 0"
  "httpAttempts (HttpClientDo r # evs) = Suc (httpAttempts evs)"
  "httpAttempts (LogInfo l # evs) = httpAttempts evs"
  "httpAttempts (LogError l # evs) = httpAttempts evs"
  "httpAttempts (Sleep d # evs) = httpAttempts evs"
  "httpAttempts (FindMonitoringResource ns # evs) = httpAttempts evs"
  "httpAttempts (K8sClientGet ns n # evs) = httpAttempts evs"
  "httpAttempts (K8sClientStatusUpdate m # evs) = httpAttempts evs"
  "httpAttempts (evs @ evs') = httpAttempts evs + httpAttempts evs'"
  by (simp_all add: httpAttempts_def)

lemma stateBeforeAttempt_simps [simp]:
  "stateBeforeAttempt fn 0 s = s"
  "stateBeforeAttempt fn (Suc k) s = stateBeforeAttempt fn k (fst (snd (fn s)))"
  by (simp_all only: stateBeforeAttempt_def funpow_Suc_right o_apply funpow_0)

lemma attemptResult_simps [simp]:
  "attemptResult fn 0 s = fst (fn s)"
  "attemptResult fn (Suc k) s = attemptResult fn k (fst (snd (fn s)))"
  by (simp_all add: attemptResult_def)

lemma executeSingleHttpRequest_cases:
  "(\<forall>e s'. HttpClient_Do rr (Request req) s = (Inl e, s') \<longrightarrow>
       fst (executeSingleHttpRequest rr req s) = Some (RetryableError e True)) \<and>
   (\<forall>res s'. HttpClient_Do rr (Request req) s = (Inr res, s') \<and>
       200 \<le> StatusCode res \<and> StatusCode res < 300 \<longrightarrow>
       fst (executeSingleHttpRequest rr req s) = None) \<and>
   (\<forall>res s'. HttpClient_Do rr (Request req) s = (Inr res, s') \<and>
       400 \<le> StatusCode res \<and> StatusCode res < 500 \<longrightarrow>
       fst (executeSingleHttpRequest rr req s) =
         Some (RetryableError (convertNon2xxStatusCodeToError rr req res) False)) \<and>
   (\<forall>res s'. HttpClient_Do rr (Request req) s = (Inr res, s') \<and>
       500 \<le> StatusCode res \<and> StatusCode res < 600 \<longrightarrow>
       fst (executeSingleHttpRequest rr req s) =
         Some (RetryableError (convertNon2xxStatusCodeToError rr req res) True))"
  by (auto simp: executeSingleHttpRequest_def Let_def)

lemma executeSingleHttpRequest_not_timeout:
  "fst (executeSingleHttpRequest rr req s) \<noteq> Some ErrWaitTimeout"
  by (auto simp: executeSingleHttpRequest_def Let_def split: prod.splits sum.splits)

lemma executeSingleHttpRequest_one_call:
  "executeSingleHttpRequest rr req s = (r, s', evs) \<Longrightarrow> httpAttempts evs = 1"
  by (auto simp: executeSingleHttpRequest_def Let_def split: prod.splits sum.splits if_splits)

lemma httpBackoff_simps:
  "Steps (httpBackoff rr) = 3" "Factor (httpBackoff rr) = 3 / 2"
  "Duration (httpBackoff rr) = GetHttpRetryDelay rr"
  by (simp_all add: httpBackoff_def)

lemma executeSingleHttpRequestWithRetry_unrolled:
  "executeSingleHttpRequestWithRetry rr req actionLabel x =
     (case executeSingleHttpRequest rr req x of
        (None, s1, e1) \<Rightarrow> (None, s1, LogInfo ExecutingRequest # e1)
      | (Some err1, s1, e1) \<Rightarrow>
          if \<not> isRetryable err1 then (Some err1, s1, LogInfo ExecutingRequest # e1)
          else (case executeSingleHttpRequest rr req s1 of
                  (None, s2, e2) \<Rightarrow>
                    (None, s2, LogInfo ExecutingRequest # e1 @ Sleep (GetHttpRetryDelay rr) # e2)
                | (Some err2, s2, e2) \<Rightarrow>
                    if \<not> isRetryable err2
                    then (Some err2, s2,
                          LogInfo ExecutingRequest # e1 @ Sleep (GetHttpRetryDelay rr) # e2)
                    else (case executeSingleHttpRequest rr req s2 of
                            (err3, s3, e3) \<Rightarrow>
                              (err3, s3, LogInfo ExecutingRequest # e1 @
                                 Sleep (GetHttpRetryDelay rr) # e2 @
                                 Sleep \<lfloor>of_int (GetHttpRetryDelay rr) * (3 / 2 :: rat)\<rfloor> # e3))))"
proof -
  have nt: "fst (executeSingleHttpRequest rr req s) = Some ErrWaitTimeout \<Longrightarrow>
                isRetryable ErrWaitTimeout" for s
    using executeSingleHttpRequest_not_timeout[of rr req s] by simp
  have eq: "OnError (httpBackoff rr) isRetryable (executeSingleHttpRequest rr req) x =
     (case executeSingleHttpRequest rr req x of
        (None, s1, e1) \<Rightarrow> (None, s1, e1)
      | (Some err1, s1, e1) \<Rightarrow>
          if \<not> isRetryable err1 then (Some err1, s1, e1)
          else (case executeSingleHttpRequest rr req s1 of
                  (None, s2, e2) \<Rightarrow> (None, s2, e1 @ Sleep (Duration (httpBackoff rr)) # e2)
                | (Some err2, s2, e2) \<Rightarrow>
                    if \<not> isRetryable err2 then (Some err2, s2, e1 @ Sleep (Duration (httpBackoff rr)) # e2)
                    else (case executeSingleHttpRequest rr req s2 of
                            (None, s3, e3) \<Rightarrow>
                              (None, s3, e1 @ Sleep (Duration (httpBackoff rr)) # e2 @
                                 Sleep \<lfloor>of_int (Duration (httpBackoff rr)) * Factor (httpBackoff rr)\<rfloor> # e3)
                          | (Some err3, s3, e3) \<Rightarrow>
                              (Some err3, s3, e1 @ Sleep (Duration (httpBackoff rr)) # e2 @
                                 Sleep \<lfloor>of_int (Duration (httpBackoff rr)) * Factor (httpBackoff rr)\<rfloor> # e3))))"
    by (rule OnError_3) (simp_all add: httpBackoff_simps executeSingleHttpRequest_not_timeout)
  obtain r1 t1 e1 where f1: "executeSingleHttpRequest rr req x = (r1, t1, e1)"
    by (cases "executeSingleHttpRequest rr req x") auto
  obtain r2 t2 e2 where f2: "executeSingleHttpRequest rr req t1 = (r2, t2, e2)"
    by (cases "executeSingleHttpRequest rr req t1") auto
  obtain r3 t3 e3 where f3: "executeSingleHttpRequest rr req t2 = (r3, t3, e3)"
    by (cases "executeSingleHttpRequest rr req t2") auto
  show ?thesis
    unfolding executeSingleHttpRequestWithRetry_def eq
    by (cases r1; cases r2; cases r3) (simp_all add: f1 f2 f3 httpBackoff_simps)
qed

lemma retry_stops_after_first:
  assumes run: "executeSingleHttpRequestWithRetry rr req actionLabel x = (err, x', evs)"
      and f1: "executeSingleHttpRequest rr req x = (r1, t1, e1)"
      and r1: "r1 = None \<or> (\<exists>e. r1 = Some e \<and> \<not> isRetryable e)"
  shows "err = r1 \<and> httpAttempts evs = 1"
proof -
  have "err = r1 \<and> evs = LogInfo ExecutingRequest # e1"
    using run f1 r1 unfolding executeSingleHttpRequestWithRetry_unrolled by auto
  then show ?thesis using executeSingleHttpRequest_one_call[OF f1] by simp
qed

lemma retry_stops_after_second:
  assumes run: "executeSingleHttpRequestWithRetry rr req actionLabel x = (err, x', evs)"
      and f1: "executeSingleHttpRequest rr req x = (Some e, t1, e1)" and re: "isRetryable e"
      and f2: "executeSingleHttpRequest rr req t1 = (r2, t2, e2)"
      and r2: "r2 = None \<or> (\<exists>e. r2 = Some e \<and> \<not> isRetryable e)"
  shows "err = r2 \<and> httpAttempts evs = 2"
proof -
  have "err = r2 \<and> evs = LogInfo ExecutingRequest # e1 @ Sleep (GetHttpRetryDelay rr) # e2"
    using run f1 f2 re r2 unfolding executeSingleHttpRequestWithRetry_unrolled by auto
  then show ?thesis
    using executeSingleHttpRequest_one_call[OF f1] executeSingleHttpRequest_one_call[OF f2] by simp
qed

lemma retry_third_is_last:
  assumes run: "executeSingleHttpRequestWithRetry rr req actionLabel x = (err, x', evs)"
      and f1: "executeSingleHttpRequest rr req x = (Some e, t1, e1)" and re: "isRetryable e"
      and f2: "executeSingleHttpRequest rr req t1 = (Some e', t2, e2)" and re': "isRetryable e'"
      and f3: "executeSingleHttpRequest rr req t2 = (r3, t3, e3)"
  shows "err = r3 \<and> httpAttempts evs = 3"
proof -
  have "err = r3 \<and> evs = LogInfo ExecutingRequest # e1 @ Sleep (GetHttpRetryDelay rr) # e2 @
        Sleep \<lfloor>of_int (GetHttpRetryDelay rr) * (3 / 2 :: rat)\<rfloor> # e3"
    using run f1 f2 f3 re re' unfolding executeSingleHttpRequestWithRetry_unrolled by auto
  then show ?thesis
    using executeSingleHttpRequest_one_call[OF f1] executeSingleHttpRequest_one_call[OF f2]
      executeSingleHttpRequest_one_call[OF f3] by simp
qed

text \<open>
  Claim C3. A request is sent at least once and at most three times. Every run but the last
  one returned a retryable error; the error of the whole is what the last run returned; a
  whole that stops before the third run stops on a success or on an error that is not
  retryable. A run is classified by what the HTTP client returns: a transport failure and a
  response with a 5xx status give a retryable error, a 4xx status gives an error that is not
  retryable, a 2xx status gives no error. So a first response with a 4xx status is surfaced
  after exactly one run, a first response with a 2xx status is a success after one run, and
  a first transport failure or 5xx status is followed by a second run.
\<close>

theorem executeSingleHttpRequestWithRetry_attempts:
  assumes run: "executeSingleHttpRequestWithRetry rr req actionLabel x = (err, x', evs)"
  shows
    "1 \<le> httpAttempts evs \<and> httpAttempts evs \<le> 3 \<and>
     (\<forall>k. Suc k < httpAttempts evs \<longrightarrow>
        (\<exists>e. attemptResult (executeSingleHttpRequest rr req) k x = Some e \<and> isRetryable e)) \<and>
     err = attemptResult (executeSingleHttpRequest rr req) (httpAttempts evs - 1) x \<and>
     (httpAttempts evs < 3 \<longrightarrow> (\<forall>e. err = Some e \<longrightarrow> \<not> isRetryable e)) \<and>
     (\<forall>s. (\<forall>e s'. HttpClient_Do rr (Request req) s = (Inl e, s') \<longrightarrow>
              (\<exists>e'. fst (executeSingleHttpRequest rr req s) = Some e' \<and> isRetryable e')) \<and>
          (\<forall>res s'. HttpClient_Do rr (Request req) s = (Inr res, s') \<and>
              500 \<le> StatusCode res \<and> StatusCode res < 600 \<longrightarrow>
              (\<exists>e'. fst (executeSingleHttpRequest rr req s) = Some e' \<and> isRetryable e')) \<and>
          (\<forall>res s'. HttpClient_Do rr (Request req) s = (Inr res, s') \<and>
              400 \<le> StatusCode res \<and> StatusCode res < 500 \<longrightarrow>
              (\<exists>e'. fst (executeSingleHttpRequest rr req s) = Some e' \<and> \<not> isRetryable e')) \<and>
          (\<forall>res s'. HttpClient_Do rr (Request req) s = (Inr res, s') \<and>
              200 \<le> StatusCode res \<and> StatusCode res < 300 \<longrightarrow>
              fst (executeSingleHttpRequest rr req s) = None)) \<and>
     (\<forall>res s'. HttpClient_Do rr (Request req) x = (Inr res, s') \<and>
          400 \<le> StatusCode res \<and> StatusCode res < 500 \<longrightarrow>
          httpAttempts evs = 1 \<and>
          err = Some (RetryableError (convertNon2xxStatusCodeToError rr req res) False)) \<and>
     (\<forall>res s'. HttpClient_Do rr (Request req) x = (Inr res, s') \<and>
          200 \<le> StatusCode res \<and> StatusCode res < 300 \<longrightarrow>
          httpAttempts evs = 1 \<and> err = None) \<and>
     ((\<exists>e s'. HttpClient_Do rr (Request req) x = (Inl e, s')) \<or>
      (\<exists>res s'. HttpClient_Do rr (Request req) x = (Inr res, s') \<and>
          500 \<le> StatusCode res \<and> StatusCode res < 600) \<longrightarrow>
          2 \<le> httpAttempts evs)"
proof -
  let ?fn = "executeSingleHttpRequest rr req"
  obtain r1 t1 e1 where f1: "?fn x = (r1, t1, e1)" by (cases "?fn x") auto
  obtain r2 t2 e2 where f2: "?fn t1 = (r2, t2, e2)" by (cases "?fn t1") auto
  obtain r3 t3 e3 where f3: "?fn t2 = (r3, t3, e3)" by (cases "?fn t2") auto
  note n1 = executeSingleHttpRequest_one_call[OF f1]
  note n2 = executeSingleHttpRequest_one_call[OF f2]
  note n3 = executeSingleHttpRequest_one_call[OF f3]
  have cls: "\<forall>s. (\<forall>e s'. HttpClient_Do rr (Request req) s = (Inl e, s') \<longrightarrow>
              (\<exists>e'. fst (?fn s) = Some e' \<and> isRetryable e')) \<and>
          (\<forall>res s'. HttpClient_Do rr (Request req) s = (Inr res, s') \<and>
              500 \<le> StatusCode res \<and> StatusCode res < 600 \<longrightarrow>
              (\<exists>e'. fst (?fn s) = Some e' \<and> isRetryable e')) \<and>
          (\<forall>res s'. HttpClient_Do rr (Request req) s = (Inr res, s') \<and>
              400 \<le> StatusCode res \<and> StatusCode res < 500 \<longrightarrow>
              (\<exists>e'. fst (?fn s) = Some e' \<and> \<not> isRetryable e')) \<and>
          (\<forall>res s'. HttpClient_Do rr (Request req) s = (Inr res, s') \<and>
              200 \<le> StatusCode res \<and> StatusCode res < 300 \<longrightarrow>
              fst (?fn s) = None)"
    using executeSingleHttpRequest_cases[of rr req] by (intro allI) auto
  have first: "(\<forall>e s'. HttpClient_Do rr (Request req) x = (Inl e, s') \<longrightarrow> (\<exists>e'. r1 = Some e' \<and> isRetryable e')) \<and>
     (\<forall>res s'. HttpClient_Do rr (Request req) x = (Inr res, s') \<and> 500 \<le> StatusCode res \<and> StatusCode res < 600 \<longrightarrow>
         (\<exists>e'. r1 = Some e' \<and> isRetryable e')) \<and>
     (\<forall>res s'. HttpClient_Do rr (Request req) x = (Inr res, s') \<and> 400 \<le> StatusCode res \<and> StatusCode res < 500 \<longrightarrow>
         r1 = Some (RetryableError (convertNon2xxStatusCodeToError rr req res) False)) \<and>
     (\<forall>res s'. HttpClient_Do rr (Request req) x = (Inr res, s') \<and> 200 \<le> StatusCode res \<and> StatusCode res < 300 \<longrightarrow>
         r1 = None)"
    using executeSingleHttpRequest_cases[of rr req x] f1 by auto
  have r1: "attemptResult ?fn 0 x = r1" using f1 by simp
  have r2: "attemptResult ?fn 1 x = r2" using f1 f2 by simp
  have r3: "attemptResult ?fn 2 x = r3" using f1 f2 f3 by (simp add: numeral_2_eq_2)
  consider (a) "r1 = None \<or> (\<exists>e. r1 = Some e \<and> \<not> isRetryable e)"
    | (b) e where "r1 = Some e" "isRetryable e" "r2 = None \<or> (\<exists>e. r2 = Some e \<and> \<not> isRetryable e)"
    | (c) e e' where "r1 = Some e" "isRetryable e" "r2 = Some e'" "isRetryable e'"
    by (cases r1; cases r2) auto
  then have core: "1 \<le> httpAttempts evs \<and> httpAttempts evs \<le> 3 \<and>
     (\<forall>k. Suc k < httpAttempts evs \<longrightarrow> (\<exists>e. attemptResult ?fn k x = Some e \<and> isRetryable e)) \<and>
     err = attemptResult ?fn (httpAttempts evs - 1) x \<and>
     (httpAttempts evs < 3 \<longrightarrow> (\<forall>e. err = Some e \<longrightarrow> \<not> isRetryable e))"
  proof cases
    case a
    have n: "httpAttempts evs = 1" and e: "err = r1"
      using retry_stops_after_first[OF run f1 a] by simp_all
    have "\<forall>e. err = Some e \<longrightarrow> \<not> isRetryable e" using a e by auto
    then show ?thesis using r1 by (simp add: n e)
  next
    case b
    have n: "httpAttempts evs = 2" and e: "err = r2"
      using retry_stops_after_second[OF run f1[unfolded b(1)] b(2) f2 b(3)] by simp_all
    have k: "\<forall>k. Suc k < (2::nat) \<longrightarrow> (\<exists>e. attemptResult ?fn k x = Some e \<and> isRetryable e)"
    proof (intro allI impI)
      fix k :: nat assume "Suc k < 2"
      then have "k = 0" by arith
      then show "\<exists>e. attemptResult ?fn k x = Some e \<and> isRetryable e" using r1 b(1,2) by simp
    qed
    have "\<forall>e. err = Some e \<longrightarrow> \<not> isRetryable e" using b(3) e by auto
    then show ?thesis using k r2 unfolding n by (simp add: e)
  next
    case c
    have n: "httpAttempts evs = 3" and e: "err = r3"
      using retry_third_is_last[OF run f1[unfolded c(1)] c(2) f2[unfolded c(3)] c(4) f3] by simp_all
    have k: "\<forall>k. Suc k < (3::nat) \<longrightarrow> (\<exists>e. attemptResult ?fn k x = Some e \<and> isRetryable e)"
    proof (intro allI impI)
      fix k :: nat assume "Suc k < 3"
      then have "k = 0 \<or> k = 1" by arith
      then show "\<exists>e. attemptResult ?fn k x = Some e \<and> isRetryable e"
        using r1 r2 c by auto
    qed
    have "3 - 1 = (2::nat)" by simp
    then show ?thesis using k r3 unfolding n by (simp add: e)
  qed
  have m7: "(\<exists>e. r1 = Some e \<and> isRetryable e) \<longrightarrow> 2 \<le> httpAttempts evs"
  proof
    assume "\<exists>e. r1 = Some e \<and> isRetryable e"
    then obtain e where e: "r1 = Some e" "isRetryable e" by blast
    show "2 \<le> httpAttempts evs"
    proof (cases "r2 = None \<or> (\<exists>e. r2 = Some e \<and> \<not> isRetryable e)")
      case True
      then show ?thesis using retry_stops_after_second[OF run f1[unfolded e(1)] e(2) f2] by simp
    next
      case False
      then obtain e' where "r2 = Some e'" "isRetryable e'" by (cases r2) auto
      then show ?thesis
        using retry_third_is_last[OF run f1[unfolded e(1)] e(2) f2[unfolded \<open>r2 = Some e'\<close>] _ f3] by simp
    qed
  qed
  have m6: "r1 = None \<or> (\<exists>e. r1 = Some e \<and> \<not> isRetryable e) \<longrightarrow> httpAttempts evs = 1 \<and> err = r1"
    using retry_stops_after_first[OF run f1] by simp
  from first have fa: "\<forall>e s'. HttpClient_Do rr (Request req) x = (Inl e, s') \<longrightarrow> (\<exists>e'. r1 = Some e' \<and> isRetryable e')"
    and fb: "\<forall>res s'. HttpClient_Do rr (Request req) x = (Inr res, s') \<and> 500 \<le> StatusCode res \<and> StatusCode res < 600 \<longrightarrow>
         (\<exists>e'. r1 = Some e' \<and> isRetryable e')"
    and fc: "\<forall>res s'. HttpClient_Do rr (Request req) x = (Inr res, s') \<and> 400 \<le> StatusCode res \<and> StatusCode res < 500 \<longrightarrow>
         r1 = Some (RetryableError (convertNon2xxStatusCodeToError rr req res) False)"
    and fd: "\<forall>res s'. HttpClient_Do rr (Request req) x = (Inr res, s') \<and> 200 \<le> StatusCode res \<and> StatusCode res < 300 \<longrightarrow>
         r1 = None"
    by simp_all
  have C: "\<forall>res s'. HttpClient_Do rr (Request req) x = (Inr res, s') \<and>
          400 \<le> StatusCode res \<and> StatusCode res < 500 \<longrightarrow>
          httpAttempts evs = 1 \<and>
          err = Some (RetryableError (convertNon2xxStatusCodeToError rr req res) False)"
  proof (intro allI impI)
    fix res s'
    assume h: "HttpClient_Do rr (Request req) x = (Inr res, s') \<and>
          400 \<le> StatusCode res \<and> StatusCode res < 500"
    with fc have r: "r1 = Some (RetryableError (convertNon2xxStatusCodeToError rr req res) False)"
      by blast
    with m6 show "httpAttempts evs = 1 \<and>
          err = Some (RetryableError (convertNon2xxStatusCodeToError rr req res) False)"
      by simp
  qed
  have D: "\<forall>res s'. HttpClient_Do rr (Request req) x = (Inr res, s') \<and>
          200 \<le> StatusCode res \<and> StatusCode res < 300 \<longrightarrow>
          httpAttempts evs = 1 \<and> err = None"
  proof (intro allI impI)
    fix res s'
    assume h: "HttpClient_Do rr (Request req) x = (Inr res, s') \<and>
          200 \<le> StatusCode res \<and> StatusCode res < 300"
    with fd have "r1 = None" by blast
    with m6 show "httpAttempts evs = 1 \<and> err = None" by simp
  qed
  have E: "(\<exists>e s'. HttpClient_Do rr (Request req) x = (Inl e, s')) \<or>
      (\<exists>res s'. HttpClient_Do rr (Request req) x = (Inr res, s') \<and>
          500 \<le> StatusCode res \<and> StatusCode res < 600) \<longrightarrow>
          2 \<le> httpAttempts evs"
  proof
    assume "(\<exists>e s'. HttpClient_Do rr (Request req) x = (Inl e, s')) \<or>
      (\<exists>res s'. HttpClient_Do rr (Request req) x = (Inr res, s') \<and>
          500 \<le> StatusCode res \<and> StatusCode res < 600)"
    with fa fb have "\<exists>e. r1 = Some e \<and> isRetryable e" by blast
    with m7 show "2 \<le> httpAttempts evs" by blast
  qed
  show ?thesis
    using core cls C D E by blast
qed



lemma format_d_examples: "format_d 503 = ''503''" "format_d 404 = ''404''"
  by (simp_all add: format_d_def format_nat.simps digit_char_def)
text \<open>A 503 that does not go away is tried three times, with delays of the base delay and of
  one and a half times it; a 404 is tried once; a 204 is a success.\<close>

theorem executeSingleHttpRequestWithRetry_attempts_witness:
  "executeSingleHttpRequestWithRetry (exampleReconciler (respond 503) (\<lambda>n. None) (1, [], None, None))
      (putItem ''a'') ''Creating/updating'' 0 =
     (Some (RetryableError (PlainError (''unexpected status code 503'' @
        '' when updating/creating/deleting the dashboard '' @ [CHR 0x22] @ ''a'' @ [CHR 0x22] @
        '' at /a, response body is '')) True), 3,
      [LogInfo ExecutingRequest,
       HttpClientDo \<lparr>Method = ''PUT'', URL = ''/a''\<rparr>, LogError UnexpectedStatusCodeMightBeRetried,
       Sleep 2000000000,
       HttpClientDo \<lparr>Method = ''PUT'', URL = ''/a''\<rparr>, LogError UnexpectedStatusCodeMightBeRetried,
       Sleep 3000000000,
       HttpClientDo \<lparr>Method = ''PUT'', URL = ''/a''\<rparr>, LogError UnexpectedStatusCodeMightBeRetried]) \<and>
   2 \<le> httpAttempts (snd (snd (executeSingleHttpRequestWithRetry
      (exampleReconciler (respond 503) (\<lambda>n. None) (1, [], None, None))
      (putItem ''a'') ''Creating/updating'' 0))) \<and>
   httpAttempts (snd (snd (executeSingleHttpRequestWithRetry
      (exampleReconciler (respond 503) (\<lambda>n. None) (1, [], None, None))
      (putItem ''a'') ''Creating/updating'' 0))) \<le> 3 \<and>
   executeSingleHttpRequestWithRetry (exampleReconciler (respond 404) (\<lambda>n. None) (1, [], None, None))
      (putItem ''a'') ''Creating/updating'' 0 =
     (Some (RetryableError (PlainError (''unexpected status code 404'' @
        '' when updating/creating/deleting the dashboard '' @ [CHR 0x22] @ ''a'' @ [CHR 0x22] @
        '' at /a, response body is '')) False), 1,
      [LogInfo ExecutingRequest,
       HttpClientDo \<lparr>Method = ''PUT'', URL = ''/a''\<rparr>, LogError UnexpectedStatusCode]) \<and>
   httpAttempts (snd (snd (executeSingleHttpRequestWithRetry
      (exampleReconciler (respond 404) (\<lambda>n. None) (1, [], None, None))
      (putItem ''a'') ''Creating/updating'' 0))) = 1 \<and>
   executeSingleHttpRequestWithRetry (exampleReconciler (respond 204) (\<lambda>n. None) (1, [], None, None))
      (putItem ''a'') ''Creating/updating'' 0 =
     (None, 1, [LogInfo ExecutingRequest, HttpClientDo \<lparr>Method = ''PUT'', URL = ''/a''\<rparr>])"
proof -
  let ?A = "exampleReconciler (respond 503) (\<lambda>n. None) (1, [], None, None)"
  let ?B = "exampleReconciler (respond 404) (\<lambda>n. None) (1, [], None, None)"
  let ?C = "exampleReconciler (respond 204) (\<lambda>n. None) (1, [], None, None)"
  have a: "executeSingleHttpRequestWithRetry ?A (putItem ''a'') ''Creating/updating'' 0 =
     (Some (RetryableError (PlainError (''unexpected status code 503'' @
        '' when updating/creating/deleting the dashboard '' @ [CHR 0x22] @ ''a'' @ [CHR 0x22] @
        '' at /a, response body is '')) True), 3,
      [LogInfo ExecutingRequest,
       HttpClientDo \<lparr>Method = ''PUT'', URL = ''/a''\<rparr>, LogError UnexpectedStatusCodeMightBeRetried,
       Sleep 2000000000,
       HttpClientDo \<lparr>Method = ''PUT'', URL = ''/a''\<rparr>, LogError UnexpectedStatusCodeMightBeRetried,
       Sleep 3000000000,
       HttpClientDo \<lparr>Method = ''PUT'', URL = ''/a''\<rparr>, LogError UnexpectedStatusCodeMightBeRetried])"
    by (simp add: executeSingleHttpRequestWithRetry_unrolled executeSingleHttpRequest_def
          respond_def putItem_def convertNon2xxStatusCodeToError_def format_d_examples)
  have b: "executeSingleHttpRequestWithRetry ?B (putItem ''a'') ''Creating/updating'' 0 =
     (Some (RetryableError (PlainError (''unexpected status code 404'' @
        '' when updating/creating/deleting the dashboard '' @ [CHR 0x22] @ ''a'' @ [CHR 0x22] @
        '' at /a, response body is '')) False), 1,
      [LogInfo ExecutingRequest,
       HttpClientDo \<lparr>Method = ''PUT'', URL = ''/a''\<rparr>, LogError UnexpectedStatusCode])"
    by (simp add: executeSingleHttpRequestWithRetry_unrolled executeSingleHttpRequest_def
          respond_def putItem_def convertNon2xxStatusCodeToError_def format_d_examples)
  have c: "executeSingleHttpRequestWithRetry ?C (putItem ''a'') ''Creating/updating'' 0 =
     (None, 1, [LogInfo ExecutingRequest, HttpClientDo \<lparr>Method = ''PUT'', URL = ''/a''\<rparr>])"
    by (simp add: executeSingleHttpRequestWithRetry_unrolled executeSingleHttpRequest_def
          respond_def putItem_def)
  have d: "HttpClient_Do ?A (Request (putItem ''a'')) 0 =
             (Inr \<lparr>StatusCode = 503, Body = Some []\<rparr>, 1)"
    by (simp add: respond_def)
  have e: "HttpClient_Do ?B (Request (putItem ''a'')) 0 =
             (Inr \<lparr>StatusCode = 404, Body = Some []\<rparr>, 1)"
    by (simp add: respond_def)
  let ?evsA = "snd (snd (executeSingleHttpRequestWithRetry ?A (putItem ''a'') ''Creating/updating'' 0))"
  let ?evsB = "snd (snd (executeSingleHttpRequestWithRetry ?B (putItem ''a'') ''Creating/updating'' 0))"
  have pa: "executeSingleHttpRequestWithRetry ?A (putItem ''a'') ''Creating/updating'' 0 =
              (fst (executeSingleHttpRequestWithRetry ?A (putItem ''a'') ''Creating/updating'' 0),
               fst (snd (executeSingleHttpRequestWithRetry ?A (putItem ''a'') ''Creating/updating'' 0)), ?evsA)"
    by simp
  have pb: "executeSingleHttpRequestWithRetry ?B (putItem ''a'') ''Creating/updating'' 0 =
              (fst (executeSingleHttpRequestWithRetry ?B (putItem ''a'') ''Creating/updating'' 0),
               fst (snd (executeSingleHttpRequestWithRetry ?B (putItem ''a'') ''Creating/updating'' 0)), ?evsB)"
    by simp
  note ta = executeSingleHttpRequestWithRetry_attempts[OF pa]
  note tb = executeSingleHttpRequestWithRetry_attempts[OF pb]
  have le3: "httpAttempts ?evsA \<le> 3"
    using ta[THEN conjunct2, THEN conjunct1] .
  have "(\<exists>res s'. HttpClient_Do ?A (Request (putItem ''a'')) 0 = (Inr res, s') \<and>
          500 \<le> StatusCode res \<and> StatusCode res < 600)"
    using d by simp
  then have ge2: "2 \<le> httpAttempts ?evsA"
    using ta[THEN conjunct2, THEN conjunct2, THEN conjunct2, THEN conjunct2, THEN conjunct2,
             THEN conjunct2, THEN conjunct2, THEN conjunct2] by blast
  have n1: "httpAttempts ?evsB = 1"
    using tb[THEN conjunct2, THEN conjunct2, THEN conjunct2, THEN conjunct2, THEN conjunct2,
             THEN conjunct2, THEN conjunct1, rule_format,
             of "\<lparr>StatusCode = 404, Body = Some []\<rparr>" 1] e
    by simp
  show ?thesis using a b c ge2 le3 n1 by (intro conjI)
qed


section \<open>Executing all requests\<close>

lemma executionResults_names:
  "map fst (executionResults rr reqs l x) = map ItemName reqs"
  by (induction reqs arbitrary: x) (auto split: prod.splits)

lemma loop_successes:
  "executeAllHttpRequests_loop rr reqs l succ errs x = (s, m, x', evs) \<Longrightarrow>
   s = succ @ map fst (filter (\<lambda>(n, r). r = None) (executionResults rr reqs l x))"
proof (induction reqs arbitrary: succ errs x evs)
  case Nil
  then show ?case by simp
next
  case (Cons req reqs)
  obtain r x1 e1 where f: "executeSingleHttpRequestWithRetry rr req l x = (r, x1, e1)"
    by (cases "executeSingleHttpRequestWithRetry rr req l x") auto
  show ?case
  proof (cases r)
    case None
    obtain evs2 where "executeAllHttpRequests_loop rr reqs l (succ @ [ItemName req]) errs x1 = (s, m, x', evs2)"
      using Cons.prems f None by (auto split: prod.splits)
    from Cons.IH[OF this] show ?thesis using f None by simp
  next
    case (Some e)
    obtain evs2 where "executeAllHttpRequests_loop rr reqs l succ (fmupd (ItemName req) (Error e) errs) x1 = (s, m, x', evs2)"
      using Cons.prems f Some by (auto split: prod.splits)
    from Cons.IH[OF this] show ?thesis using f Some by simp
  qed
qed

lemma loop_errors:
  "executeAllHttpRequests_loop rr reqs l succ errs x = (s, m, x', evs) \<Longrightarrow>
   distinct (map ItemName reqs) \<Longrightarrow>
   fmlookup m k =
     (case map_of (executionResults rr reqs l x) k of
        Some (Some e) \<Rightarrow> Some (Error e)
      | _ \<Rightarrow> fmlookup errs k)"
proof (induction reqs arbitrary: succ errs x evs)
  case Nil
  then show ?case by simp
next
  case (Cons req reqs)
  obtain r x1 e1 where f: "executeSingleHttpRequestWithRetry rr req l x = (r, x1, e1)"
    by (cases "executeSingleHttpRequestWithRetry rr req l x") auto
  have d: "distinct (map ItemName reqs)" and nin: "ItemName req \<notin> ItemName ` set reqs"
    using Cons.prems(2) by simp_all
  have nomap: "map_of (executionResults rr reqs l x1) (ItemName req) = None"
    using nin executionResults_names[of rr reqs l x1]
    by (metis list.set_map map_of_eq_None_iff)
  show ?case
  proof (cases r)
    case None
    obtain evs2 where "executeAllHttpRequests_loop rr reqs l (succ @ [ItemName req]) errs x1 = (s, m, x', evs2)"
      using Cons.prems f None by (auto split: prod.splits)
    from Cons.IH[OF this d] show ?thesis using f None nomap by (auto split: option.splits)
  next
    case (Some e)
    obtain evs2 where "executeAllHttpRequests_loop rr reqs l succ (fmupd (ItemName req) (Error e) errs) x1 = (s, m, x', evs2)"
      using Cons.prems f Some by (auto split: prod.splits)
    from Cons.IH[OF this d] show ?thesis using f Some nomap by (auto split: option.splits)
  qed
qed

text \<open>
  Claim C10. For requests with pairwise distinct item names, \<^verbatim>\<open>executeAllHttpRequests\<close>
  splits the names in two. The requests are executed in order, each in the state that the
  ones before it have left. A name is in the returned list exactly when its execution
  returned no error; the error map holds, for a name whose execution returned an error, the
  message of that error, and nothing for the other names. The list holds the successful
  names in the order of the requests. No name is in both, every name is in one of them, the
  list is nil exactly when no request succeeded (never an empty slice), and the map is
  never nil.
\<close>

theorem executeAllHttpRequests_partition:
  assumes dist: "distinct (map ItemName allRequests)"
      and run: "executeAllHttpRequests rr allRequests actionLabel x = (succ, errs, x', evs)"
  shows
    "(\<forall>(n, r) \<in> set (executionResults rr allRequests actionLabel x).
        (n \<in> set (elems succ) \<longleftrightarrow> r = None) \<and>
        (lookup_map errs n = (case r of None \<Rightarrow> None | Some e \<Rightarrow> Some (Error e)))) \<and>
     map fst (executionResults rr allRequests actionLabel x) = map ItemName allRequests \<and>
     elems succ = map fst (filter (\<lambda>(n, r). r = None) (executionResults rr allRequests actionLabel x)) \<and>
     set (elems succ) \<inter> keys_map errs = {} \<and>
     set (elems succ) \<union> keys_map errs = ItemName ` set allRequests \<and>
     (succ = None \<longleftrightarrow> elems succ = []) \<and>
     errs \<noteq> None"
proof -
  let ?res = "executionResults rr allRequests actionLabel x"
  obtain s m x1 ev1 where loop0: "executeAllHttpRequests_loop rr allRequests actionLabel [] fmempty x = (s, m, x1, ev1)"
    by (cases "executeAllHttpRequests_loop rr allRequests actionLabel [] fmempty x") auto
  have succ: "succ = (if length s = 0 then None else Some s)" and errs: "errs = Some m"
    and "x1 = x'" "ev1 = evs"
    using run loop0 by (simp_all add: executeAllHttpRequests_def)
  then have loop: "executeAllHttpRequests_loop rr allRequests actionLabel [] fmempty x = (s, m, x', evs)"
    using loop0 by simp
  have names: "map fst ?res = map ItemName allRequests" by (rule executionResults_names)
  have dres: "distinct (map fst ?res)" using dist names by simp
  have s: "s = map fst (filter (\<lambda>(n, r). r = None) ?res)"
    using loop_successes[OF loop] by simp
  have el: "elems succ = s" using succ by (auto simp: elems_def)
  have look: "fmlookup m k = (case map_of ?res k of Some (Some e) \<Rightarrow> Some (Error e) | _ \<Rightarrow> None)" for k
    using loop_errors[OF loop dist, of k] by (simp split: option.splits)
  have mo: "map_of ?res n = Some r" if "(n, r) \<in> set ?res" for n r
    using that dres by simp
  have uniq: "r = r'" if "(n, r) \<in> set ?res" "(n, r') \<in> set ?res" for n r r'
    using mo[OF that(1)] mo[OF that(2)] by simp
  have sset: "set (elems succ) = {n. (n, None) \<in> set ?res}"
    unfolding el s by (auto simp: image_iff)
  have a: "\<forall>(n, r) \<in> set ?res.
        (n \<in> set (elems succ) \<longleftrightarrow> r = None) \<and>
        (lookup_map errs n = (case r of None \<Rightarrow> None | Some e \<Rightarrow> Some (Error e)))"
  proof (intro ballI, clarify)
    fix n r assume nr: "(n, r) \<in> set ?res"
    have 1: "n \<in> set (elems succ) \<longleftrightarrow> r = None"
    proof
      assume "n \<in> set (elems succ)"
      then have "(n, None) \<in> set ?res" unfolding sset by simp
      then show "r = None" using uniq[OF nr] by simp
    next
      assume "r = None"
      then show "n \<in> set (elems succ)" unfolding sset using nr by simp
    qed
    have 2: "lookup_map errs n = (case r of None \<Rightarrow> None | Some e \<Rightarrow> Some (Error e))"
      unfolding errs lookup_map_def using look[of n] mo[OF nr] by (simp split: option.splits)
    show "(n \<in> set (elems succ) \<longleftrightarrow> r = None) \<and>
        (lookup_map errs n = (case r of None \<Rightarrow> None | Some e \<Rightarrow> Some (Error e)))"
      using 1 2 by simp
  qed
  have keys: "keys_map errs = {n. \<exists>e. (n, Some e) \<in> set ?res}"
  proof -
    have "k \<in> fmdom' m \<longleftrightarrow> (\<exists>e. (k, Some e) \<in> set ?res)" for k
    proof
      assume "k \<in> fmdom' m"
      then have "fmlookup m k \<noteq> None" by (simp add: fmlookup_dom'_iff)
      then obtain e where "map_of ?res k = Some (Some e)"
        using look[of k] by (auto split: option.splits)
      then show "\<exists>e. (k, Some e) \<in> set ?res" by (meson map_of_SomeD)
    next
      assume "\<exists>e. (k, Some e) \<in> set ?res"
      then obtain e where ke: "(k, Some e) \<in> set ?res" by blast
      have "fmlookup m k = Some (Error e)" using look[of k] mo[OF ke] by simp
      then show "k \<in> fmdom' m" by (simp add: fmlookup_dom'_iff)
    qed
    then show ?thesis unfolding errs keys_map_def by auto
  qed
  have b: "set (elems succ) \<inter> keys_map errs = {}"
  proof (rule ccontr)
    assume "set (elems succ) \<inter> keys_map errs \<noteq> {}"
    then obtain n where "n \<in> set (elems succ)" "n \<in> keys_map errs" by blast
    then obtain e where "(n, None) \<in> set ?res" "(n, Some e) \<in> set ?res"
      unfolding sset keys by blast
    then show False using uniq by blast
  qed
  have "ItemName ` set allRequests = fst ` set ?res"
    using names by (metis list.set_map)
  also have "\<dots> = {n. (n, None) \<in> set ?res} \<union> {n. \<exists>e. (n, Some e) \<in> set ?res}"
  proof (intro set_eqI iffI)
    fix n assume "n \<in> fst ` set ?res"
    then obtain r where "(n, r) \<in> set ?res" by auto
    then show "n \<in> {n. (n, None) \<in> set ?res} \<union> {n. \<exists>e. (n, Some e) \<in> set ?res}"
      by (cases r) auto
  next
    fix n assume "n \<in> {n. (n, None) \<in> set ?res} \<union> {n. \<exists>e. (n, Some e) \<in> set ?res}"
    then consider "(n, None) \<in> set ?res" | e where "(n, Some e) \<in> set ?res" by blast
    then show "n \<in> fst ` set ?res"
      by cases (rule image_eqI[rotated], assumption, simp)+
  qed
  finally have c: "set (elems succ) \<union> keys_map errs = ItemName ` set allRequests"
    unfolding sset keys by simp
  have d: "succ = None \<longleftrightarrow> elems succ = []" using succ by (auto simp: elems_def)
  have e: "errs \<noteq> None" using errs by simp
  have o: "elems succ = map fst (filter (\<lambda>(n, r). r = None) ?res)" using el s by simp
  show ?thesis using a names o b c d e by (intro conjI)
qed


text \<open>Two requests, the first answered with 204 and the second with 404; and a single
  request answered with 404, after which the list is nil.\<close>

theorem executeAllHttpRequests_partition_witness:
  "distinct (map ItemName [putItem ''a'', putItem ''b'']) \<and>
   executeAllHttpRequests
      (exampleReconciler (\<lambda>url n. if url = ''/a'' then respond 204 url n else respond 404 url n)
         (\<lambda>n. None) (2, [], None, None))
      [putItem ''a'', putItem ''b''] ''Creating/updating'' 0 =
     (Some [''a''],
      Some (fmupd ''b'' (''unexpected status code 404'' @
              '' when updating/creating/deleting the dashboard '' @ [CHR 0x22] @ ''b'' @ [CHR 0x22] @
              '' at /b, response body is '') fmempty),
      2,
      [LogInfo ExecutingRequest, HttpClientDo \<lparr>Method = ''PUT'', URL = ''/a''\<rparr>,
       LogInfo ExecutingRequest, HttpClientDo \<lparr>Method = ''PUT'', URL = ''/b''\<rparr>,
       LogError UnexpectedStatusCode]) \<and>
   executionResults
      (exampleReconciler (\<lambda>url n. if url = ''/a'' then respond 204 url n else respond 404 url n)
         (\<lambda>n. None) (2, [], None, None))
      [putItem ''a'', putItem ''b''] ''Creating/updating'' 0 =
     [(''a'', None),
      (''b'', Some (RetryableError (PlainError (''unexpected status code 404'' @
              '' when updating/creating/deleting the dashboard '' @ [CHR 0x22] @ ''b'' @ [CHR 0x22] @
              '' at /b, response body is '')) False))] \<and>
   set (elems (Some [''a''])) \<inter>
     keys_map (Some (fmupd ''b'' (''unexpected status code 404'' @
              '' when updating/creating/deleting the dashboard '' @ [CHR 0x22] @ ''b'' @ [CHR 0x22] @
              '' at /b, response body is '') fmempty)) = {} \<and>
   fst (executeAllHttpRequests (exampleReconciler (respond 404) (\<lambda>n. None) (1, [], None, None))
      [putItem ''a''] ''Creating/updating'' 0) = None"
proof -
  let ?R = "exampleReconciler (\<lambda>url n. if url = ''/a'' then respond 204 url n else respond 404 url n)
         (\<lambda>n. None) (2, [], None, None)"
  let ?m = "''unexpected status code 404'' @
              '' when updating/creating/deleting the dashboard '' @ [CHR 0x22] @ ''b'' @ [CHR 0x22] @
              '' at /b, response body is ''"
  have dist: "distinct (map ItemName [putItem ''a'', putItem ''b''])"
    by (simp add: putItem_def)
  have run: "executeAllHttpRequests ?R [putItem ''a'', putItem ''b''] ''Creating/updating'' 0 =
     (Some [''a''], Some (fmupd ''b'' ?m fmempty), 2,
      [LogInfo ExecutingRequest, HttpClientDo \<lparr>Method = ''PUT'', URL = ''/a''\<rparr>,
       LogInfo ExecutingRequest, HttpClientDo \<lparr>Method = ''PUT'', URL = ''/b''\<rparr>,
       LogError UnexpectedStatusCode])"
    by (simp add: executeAllHttpRequests_def executeSingleHttpRequestWithRetry_unrolled
          executeSingleHttpRequest_def respond_def putItem_def convertNon2xxStatusCodeToError_def
          format_d_examples)
  have res: "executionResults ?R [putItem ''a'', putItem ''b''] ''Creating/updating'' 0 =
     [(''a'', None), (''b'', Some (RetryableError (PlainError ?m) False))]"
    by (simp add: executeSingleHttpRequestWithRetry_unrolled
          executeSingleHttpRequest_def respond_def putItem_def convertNon2xxStatusCodeToError_def
          format_d_examples)
  have none: "fst (executeAllHttpRequests (exampleReconciler (respond 404) (\<lambda>n. None) (1, [], None, None))
      [putItem ''a''] ''Creating/updating'' 0) = None"
    by (simp add: executeAllHttpRequests_def executeSingleHttpRequestWithRetry_unrolled
          executeSingleHttpRequest_def respond_def putItem_def convertNon2xxStatusCodeToError_def
          format_d_examples)
  note t = executeAllHttpRequests_partition[OF dist run]
  have disj: "set (elems (Some [''a''])) \<inter> keys_map (Some (fmupd ''b'' ?m fmempty)) = {}"
    using t[THEN conjunct2, THEN conjunct2, THEN conjunct2, THEN conjunct1] .
  show ?thesis using dist run res disj none by (intro conjI)
qed


section \<open>Retrying the status write\<close>

lemma statusWriteAttempts_simps [simp]:
  "statusWriteAttempts [] = 0"
  "statusWriteAttempts (K8sClientGet ns n # evs) = Suc (statusWriteAttempts evs)"
  "statusWriteAttempts (LogInfo l # evs) = statusWriteAttempts evs"
  "statusWriteAttempts (LogError l # evs) = statusWriteAttempts evs"
  "statusWriteAttempts (Sleep d # evs) = statusWriteAttempts evs"
  "statusWriteAttempts (K8sClientStatusUpdate m # evs) = statusWriteAttempts evs"
  "statusWriteAttempts (evs @ evs') = statusWriteAttempts evs + statusWriteAttempts evs'"
  by (simp_all add: statusWriteAttempts_def)

lemma sleeps_simps [simp]:
  "sleeps [] = []"
  "sleeps (Sleep d # evs) = Sleep d # sleeps evs"
  "sleeps (K8sClientGet ns n # evs) = sleeps evs"
  "sleeps (LogInfo l # evs) = sleeps evs"
  "sleeps (LogError l # evs) = sleeps evs"
  "sleeps (K8sClientStatusUpdate m # evs) = sleeps evs"
  "sleeps (evs @ evs') = sleeps evs @ sleeps evs'"
  by (simp_all add: sleeps_def)

lemma statusWriteAttempt_events:
  assumes "statusWriteAttempt rr q r n succ vi se s = (err, s', evs)"
  shows "statusWriteAttempts evs = 1 \<and> httpAttempts evs = 0 \<and> sleeps evs = [] \<and> evs \<noteq> [] \<and>
         LogError FinallyFailedNoMoreRetries \<notin> set evs \<and>
         (err = None \<longrightarrow> last evs = LogInfo SuccessfullyUpdatedStatus) \<and>
         (err \<noteq> None \<longrightarrow> LogInfo SuccessfullyUpdatedStatus \<notin> set evs)"
  using assms
  by (auto simp: statusWriteAttempt_def Let_def split: prod.splits sum.splits option.splits)

lemma write_first_succeeds:
  assumes run: "writeSynchronizationResult rr mr tpr n succ vi se x = (x', evs)"
      and f1: "retriedStatusWrite rr tpr n succ vi se (x, mr) = (None, t1, e1)"
  shows "evs = e1"
  using run f1 unfolding writeSynchronizationResult_unrolled retriedStatusWrite_def Let_def
  by (auto split: prod.splits)

lemma write_second_succeeds:
  assumes run: "writeSynchronizationResult rr mr tpr n succ vi se x = (x', evs)"
      and f1: "retriedStatusWrite rr tpr n succ vi se (x, mr) = (Some err1, t1, e1)"
      and f2: "retriedStatusWrite rr tpr n succ vi se t1 = (None, t2, e2)"
  shows "evs = e1 @ Sleep 1000000000 # e2"
  using run f1 f2 unfolding writeSynchronizationResult_unrolled retriedStatusWrite_def Let_def
  by (auto split: prod.splits)

lemma write_third_succeeds:
  assumes run: "writeSynchronizationResult rr mr tpr n succ vi se x = (x', evs)"
      and f1: "retriedStatusWrite rr tpr n succ vi se (x, mr) = (Some err1, t1, e1)"
      and f2: "retriedStatusWrite rr tpr n succ vi se t1 = (Some err2, t2, e2)"
      and f3: "retriedStatusWrite rr tpr n succ vi se t2 = (None, t3, e3)"
  shows "evs = e1 @ Sleep 1000000000 # e2 @ Sleep 1300000000 # e3"
  using run f1 f2 f3 unfolding writeSynchronizationResult_unrolled retriedStatusWrite_def Let_def
  by (auto split: prod.splits)

lemma write_all_fail:
  assumes run: "writeSynchronizationResult rr mr tpr n succ vi se x = (x', evs)"
      and f1: "retriedStatusWrite rr tpr n succ vi se (x, mr) = (Some err1, t1, e1)"
      and f2: "retriedStatusWrite rr tpr n succ vi se t1 = (Some err2, t2, e2)"
      and f3: "retriedStatusWrite rr tpr n succ vi se t2 = (Some err3, t3, e3)"
  shows "evs = e1 @ Sleep 1000000000 # e2 @ Sleep 1300000000 # e3 @ [LogError FinallyFailedNoMoreRetries]"
  using run f1 f2 f3 unfolding writeSynchronizationResult_unrolled retriedStatusWrite_def Let_def
  by (auto split: prod.splits)


lemma retriedStatusWrite_events:
  assumes "retriedStatusWrite rr tpr n succ vi se s = (err, s', evs)"
  shows "statusWriteAttempts evs = 1 \<and> httpAttempts evs = 0 \<and> sleeps evs = [] \<and> evs \<noteq> [] \<and>
         LogError FinallyFailedNoMoreRetries \<notin> set evs \<and>
         (err = None \<longrightarrow> last evs = LogInfo SuccessfullyUpdatedStatus) \<and>
         (err \<noteq> None \<longrightarrow> LogInfo SuccessfullyUpdatedStatus \<notin> set evs)"
  using assms unfolding retriedStatusWrite_def by (rule statusWriteAttempt_events)

text \<open>
  Claim C8. \<^verbatim>\<open>writeSynchronizationResult\<close> runs the sequence of re-fetch, merge and write at
  least once and at most three times. A further run happens only after a run that failed,
  and a failed run is followed by a further run unless it was the third. Before the second
  run the task sleeps one second, before the third 1.3 seconds. When the last run succeeds,
  the success is the last thing logged and no final failure is logged. When the last run
  fails, it was the third, the final failure is the last thing logged, and no success is
  logged. The function has no error result: it returns the state of the world and nothing
  else, so no error reaches the caller. It never calls the HTTP client, so what was sent to
  the external API stays as it is.
\<close>

theorem writeSynchronizationResult_retries:
  assumes run: "writeSynchronizationResult rr mr tpr n succ vi se x = (x', evs)"
  shows
   "1 \<le> statusWriteAttempts evs \<and> statusWriteAttempts evs \<le> 3 \<and>
    (\<forall>k. Suc k < statusWriteAttempts evs \<longrightarrow>
       attemptResult (retriedStatusWrite rr tpr n succ vi se) k (x, mr) \<noteq> None) \<and>
    (statusWriteAttempts evs < 3 \<longrightarrow>
       attemptResult (retriedStatusWrite rr tpr n succ vi se) (statusWriteAttempts evs - 1) (x, mr) = None) \<and>
    sleeps evs = take (statusWriteAttempts evs - 1) [Sleep 1000000000, Sleep 1300000000] \<and>
    httpAttempts evs = 0 \<and>
    (attemptResult (retriedStatusWrite rr tpr n succ vi se) (statusWriteAttempts evs - 1) (x, mr) = None \<longrightarrow>
       last evs = LogInfo SuccessfullyUpdatedStatus \<and> LogError FinallyFailedNoMoreRetries \<notin> set evs) \<and>
    (attemptResult (retriedStatusWrite rr tpr n succ vi se) (statusWriteAttempts evs - 1) (x, mr) \<noteq> None \<longrightarrow>
       statusWriteAttempts evs = 3 \<and> last evs = LogError FinallyFailedNoMoreRetries \<and>
       LogInfo SuccessfullyUpdatedStatus \<notin> set evs)"
proof -
  let ?fn = "retriedStatusWrite rr tpr n succ vi se"
  obtain r1 t1 e1 where f1: "?fn (x, mr) = (r1, t1, e1)" by (cases "?fn (x, mr)") auto
  obtain r2 t2 e2 where f2: "?fn t1 = (r2, t2, e2)" by (cases "?fn t1") auto
  obtain r3 t3 e3 where f3: "?fn t2 = (r3, t3, e3)" by (cases "?fn t2") auto
  note v1 = retriedStatusWrite_events[OF f1]
  note v2 = retriedStatusWrite_events[OF f2]
  note v3 = retriedStatusWrite_events[OF f3]
  have a0: "attemptResult ?fn 0 (x, mr) = r1" using f1 by simp
  have a1: "attemptResult ?fn 1 (x, mr) = r2" using f1 f2 by simp
  have a2: "attemptResult ?fn 2 (x, mr) = r3" using f1 f2 f3 by (simp add: numeral_2_eq_2)
  consider (one) "r1 = None"
    | (two) err1 where "r1 = Some err1" "r2 = None"
    | (three) err1 err2 where "r1 = Some err1" "r2 = Some err2" "r3 = None"
    | (fail) err1 err2 err3 where "r1 = Some err1" "r2 = Some err2" "r3 = Some err3"
    by (cases r1; cases r2; cases r3) auto
  then show ?thesis
  proof cases
    case one
    have evs: "evs = e1" using write_first_succeeds[OF run f1[unfolded one]] .
    have n: "statusWriteAttempts evs = 1" using v1 evs by simp
    show ?thesis unfolding n using v1 a0 one by (simp add: evs)
  next
    case two
    have evs: "evs = e1 @ Sleep 1000000000 # e2"
      using write_second_succeeds[OF run f1[unfolded two(1)] f2[unfolded two(2)]] .
    have n: "statusWriteAttempts evs = 2" using v1 v2 evs by simp
    have k: "\<forall>k. Suc k < (2::nat) \<longrightarrow> attemptResult ?fn k (x, mr) \<noteq> None"
    proof (intro allI impI)
      fix k :: nat assume "Suc k < 2"
      then have "k = 0" by arith
      then show "attemptResult ?fn k (x, mr) \<noteq> None" using a0 two by simp
    qed
    have l: "last evs = LogInfo SuccessfullyUpdatedStatus" using v2 two evs by simp
    have nf: "LogError FinallyFailedNoMoreRetries \<notin> set evs" using v1 v2 evs by simp
    have sl: "sleeps evs = [Sleep 1000000000]" using v1 v2 evs by simp
    have h: "httpAttempts evs = 0" using v1 v2 evs by simp
    show ?thesis unfolding n using k l nf sl h a1 two by simp
  next
    case three
    have evs: "evs = e1 @ Sleep 1000000000 # e2 @ Sleep 1300000000 # e3"
      using write_third_succeeds[OF run f1[unfolded three(1)] f2[unfolded three(2)] f3[unfolded three(3)]] .
    have n: "statusWriteAttempts evs = 3" using v1 v2 v3 evs by simp
    have k: "\<forall>k. Suc k < (3::nat) \<longrightarrow> attemptResult ?fn k (x, mr) \<noteq> None"
    proof (intro allI impI)
      fix k :: nat assume "Suc k < 3"
      then have "k = 0 \<or> k = 1" by arith
      then show "attemptResult ?fn k (x, mr) \<noteq> None" using a0 a1 three by auto
    qed
    have l: "last evs = LogInfo SuccessfullyUpdatedStatus" using v3 three evs by simp
    have nf: "LogError FinallyFailedNoMoreRetries \<notin> set evs" using v1 v2 v3 evs by simp
    have sl: "sleeps evs = [Sleep 1000000000, Sleep 1300000000]" using v1 v2 v3 evs by simp
    have h: "httpAttempts evs = 0" using v1 v2 v3 evs by simp
    have a: "attemptResult ?fn (3 - 1) (x, mr) = None" using a2 three by simp
    show ?thesis unfolding n using k l nf sl h a by simp
  next
    case fail
    have evs: "evs = e1 @ Sleep 1000000000 # e2 @ Sleep 1300000000 # e3 @ [LogError FinallyFailedNoMoreRetries]"
      using write_all_fail[OF run f1[unfolded fail(1)] f2[unfolded fail(2)] f3[unfolded fail(3)]] .
    have n: "statusWriteAttempts evs = 3" using v1 v2 v3 evs by simp
    have k: "\<forall>k. Suc k < (3::nat) \<longrightarrow> attemptResult ?fn k (x, mr) \<noteq> None"
    proof (intro allI impI)
      fix k :: nat assume "Suc k < 3"
      then have "k = 0 \<or> k = 1" by arith
      then show "attemptResult ?fn k (x, mr) \<noteq> None" using a0 a1 fail by auto
    qed
    have l: "last evs = LogError FinallyFailedNoMoreRetries" using evs by simp
    have ns: "LogInfo SuccessfullyUpdatedStatus \<notin> set evs" using v1 v2 v3 fail evs by simp
    have sl: "sleeps evs = [Sleep 1000000000, Sleep 1300000000]" using v1 v2 v3 evs by simp
    have h: "httpAttempts evs = 0" using v1 v2 v3 evs by simp
    have a: "attemptResult ?fn (3 - 1) (x, mr) \<noteq> None" using a2 fail by simp
    show ?thesis unfolding n using k l ns sl h a by simp
  qed
qed


text \<open>A status update that always fails, and one that fails once and then succeeds.\<close>

theorem writeSynchronizationResult_retries_witness:
  "writeSynchronizationResult
      (exampleReconciler (respond 200) (\<lambda>n. Some (PlainError ''conflict'')) (1, [], None, None))
      exampleMonitoring exampleObject 1 (Some [''a'']) None None 0 =
     (6,
      [K8sClientGet ''ns'' ''dash0'',
       K8sClientStatusUpdate (exampleMonitoring\<lparr>Status := Some (Successful, 1, Some [''a''], None, None)\<rparr>),
       LogError UpdateAttemptFailed,
       Sleep 1000000000,
       K8sClientGet ''ns'' ''dash0'',
       K8sClientStatusUpdate (exampleMonitoring\<lparr>Status := Some (Successful, 1, Some [''a''], None, None)\<rparr>),
       LogError UpdateAttemptFailed,
       Sleep 1300000000,
       K8sClientGet ''ns'' ''dash0'',
       K8sClientStatusUpdate (exampleMonitoring\<lparr>Status := Some (Successful, 1, Some [''a''], None, None)\<rparr>),
       LogError UpdateAttemptFailed,
       LogError FinallyFailedNoMoreRetries]) \<and>
   statusWriteAttempts (snd (writeSynchronizationResult
      (exampleReconciler (respond 200) (\<lambda>n. Some (PlainError ''conflict'')) (1, [], None, None))
      exampleMonitoring exampleObject 1 (Some [''a'']) None None 0)) \<le> 3 \<and>
   httpAttempts (snd (writeSynchronizationResult
      (exampleReconciler (respond 200) (\<lambda>n. Some (PlainError ''conflict'')) (1, [], None, None))
      exampleMonitoring exampleObject 1 (Some [''a'']) None None 0)) = 0 \<and>
   writeSynchronizationResult
      (exampleReconciler (respond 200) (\<lambda>n. if n < 2 then Some (PlainError ''conflict'') else None)
         (1, [], None, None))
      exampleMonitoring exampleObject 1 (Some [''a'']) None None 0 =
     (4,
      [K8sClientGet ''ns'' ''dash0'',
       K8sClientStatusUpdate (exampleMonitoring\<lparr>Status := Some (Successful, 1, Some [''a''], None, None)\<rparr>),
       LogError UpdateAttemptFailed,
       Sleep 1000000000,
       K8sClientGet ''ns'' ''dash0'',
       K8sClientStatusUpdate (exampleMonitoring\<lparr>Status := Some (Successful, 1, Some [''a''], None, None)\<rparr>),
       LogInfo SuccessfullyUpdatedStatus])"
proof -
  let ?F = "exampleReconciler (respond 200) (\<lambda>n. Some (PlainError ''conflict'')) (1, [], None, None)"
  let ?G = "exampleReconciler (respond 200) (\<lambda>n. if n < 2 then Some (PlainError ''conflict'') else None)
         (1, [], None, None)"
  let ?m = "exampleMonitoring\<lparr>Status := Some (Successful, 1, Some [''a''], None, None)\<rparr>"
  have f: "writeSynchronizationResult ?F exampleMonitoring exampleObject 1 (Some [''a'']) None None 0 =
     (6,
      [K8sClientGet ''ns'' ''dash0'', K8sClientStatusUpdate ?m, LogError UpdateAttemptFailed,
       Sleep 1000000000,
       K8sClientGet ''ns'' ''dash0'', K8sClientStatusUpdate ?m, LogError UpdateAttemptFailed,
       Sleep 1300000000,
       K8sClientGet ''ns'' ''dash0'', K8sClientStatusUpdate ?m, LogError UpdateAttemptFailed,
       LogError FinallyFailedNoMoreRetries])"
    by (simp add: writeSynchronizationResult_unrolled statusWriteAttempt_def
          synchronizationResult_def Let_def)
  have g: "writeSynchronizationResult ?G exampleMonitoring exampleObject 1 (Some [''a'']) None None 0 =
     (4,
      [K8sClientGet ''ns'' ''dash0'', K8sClientStatusUpdate ?m, LogError UpdateAttemptFailed,
       Sleep 1000000000,
       K8sClientGet ''ns'' ''dash0'', K8sClientStatusUpdate ?m, LogInfo SuccessfullyUpdatedStatus])"
    by (simp add: writeSynchronizationResult_unrolled statusWriteAttempt_def
          synchronizationResult_def Let_def)
  have p: "writeSynchronizationResult ?F exampleMonitoring exampleObject 1 (Some [''a'']) None None 0 =
     (fst (writeSynchronizationResult ?F exampleMonitoring exampleObject 1 (Some [''a'']) None None 0),
      snd (writeSynchronizationResult ?F exampleMonitoring exampleObject 1 (Some [''a'']) None None 0))"
    by simp
  note t = writeSynchronizationResult_retries[OF p]
  have le: "statusWriteAttempts (snd (writeSynchronizationResult ?F exampleMonitoring exampleObject 1
              (Some [''a'']) None None 0)) \<le> 3"
    using t[THEN conjunct2, THEN conjunct1] .
  have h: "httpAttempts (snd (writeSynchronizationResult ?F exampleMonitoring exampleObject 1
              (Some [''a'']) None None 0)) = 0"
    using t[THEN conjunct2, THEN conjunct2, THEN conjunct2, THEN conjunct2, THEN conjunct2,
            THEN conjunct1] .
  show ?thesis using f le h g by (intro conjI)
qed


section \<open>Merging the errors of the two stages\<close>

lemma loop_keys:
  "executeAllHttpRequests_loop rr reqs l succ errs x = (s, m, x', evs) \<Longrightarrow>
   fmdom' m \<subseteq> fmdom' errs \<union> ItemName ` set reqs"
proof (induction reqs arbitrary: succ errs x evs)
  case Nil
  then show ?case by simp
next
  case (Cons req reqs)
  obtain r x1 e1 where f: "executeSingleHttpRequestWithRetry rr req l x = (r, x1, e1)"
    by (cases "executeSingleHttpRequestWithRetry rr req l x") auto
  show ?case
  proof (cases r)
    case None
    obtain evs2 where "executeAllHttpRequests_loop rr reqs l (succ @ [ItemName req]) errs x1 = (s, m, x', evs2)"
      using Cons.prems f None by (auto split: prod.splits)
    from Cons.IH[OF this] show ?thesis by auto
  next
    case (Some e)
    obtain evs2 where "executeAllHttpRequests_loop rr reqs l succ (fmupd (ItemName req) (Error e) errs) x1 = (s, m, x', evs2)"
      using Cons.prems f Some by (auto split: prod.splits)
    from Cons.IH[OF this] show ?thesis by auto
  qed
qed

lemma executeAllHttpRequests_keys:
  assumes "executeAllHttpRequests rr reqs l x = (succ, he, x', evs)"
  shows "keys_map he \<subseteq> ItemName ` set reqs"
proof -
  obtain s m x1 ev1 where loop: "executeAllHttpRequests_loop rr reqs l [] fmempty x = (s, m, x1, ev1)"
    by (cases "executeAllHttpRequests_loop rr reqs l [] fmempty x") auto
  have "he = Some m" using assms loop by (simp add: executeAllHttpRequests_def)
  then show ?thesis using loop_keys[OF loop] by (simp add: keys_map_def)
qed

lemma keys_map_empty_iff: "len_map m = 0 \<Longrightarrow> keys_map m = {}"
  by (auto simp: len_map_eq_0 keys_map_def)

lemma keys_mergeErrors: "keys_map (mergeErrors se he) = keys_map se \<union> keys_map he"
proof (cases "len_map he > 0")
  case True
  then obtain src where "he = Some src" by (cases he) (auto simp: len_map_def)
  then show ?thesis using True
    by (simp add: mergeErrors_def maps_Copy_def keys_map_def split: option.splits)
next
  case False
  then have "len_map he = 0" by simp
  then show ?thesis using keys_map_empty_iff[of he] by (simp add: mergeErrors_def)
qed

lemma lookup_mergeErrors:
  "k \<notin> keys_map he \<Longrightarrow> lookup_map (mergeErrors se he) k = lookup_map se k"
  by (cases he; cases se)
     (auto simp: mergeErrors_def maps_Copy_def keys_map_def lookup_map_def fmlookup_dom'_iff)


lemma validatePreconditions_resource:
  assumes "validatePreconditions D rr tpr x = (pre, x1, evs1)" and "synchronizeResource pre"
  shows "\<exists>mr. monitoringResource pre = Some mr"
  using assms
  by (auto simp: validatePreconditions_def doNotSynchronize_def Let_def
           split: prod.splits sum.splits option.splits if_splits)

lemma synchronizeViaApi_passing:
  assumes v: "validatePreconditions D rr tpr x = (pre, x1, evs1)" and s: "synchronizeResource pre"
      and mr: "monitoringResource pre = Some mr"
      and m: "MapResourceToHttpRequests rr pre action = (n, reqs, vi, se)"
      and e: "(if length reqs > 0 then executeAllHttpRequests rr reqs actionLabel x1
               else (None, None, x1, [])) = (succ, he, x2, evs3)"
  shows "synchronizeViaApi D rr tpr action actionLabel x =
           (Returned,
            fst (writeSynchronizationResult rr mr tpr n succ vi (mergeErrors se he) x2),
            evs1 @
            (if length reqs = 0 \<and> len_map vi = 0 \<and> len_map se = 0
             then [LogInfo NothingToSynchronizeSkipping] else []) @
            evs3 @ [LogInfo SynchronizationSummary] @
            snd (writeSynchronizationResult rr mr tpr n succ vi (mergeErrors se he) x2))"
  unfolding synchronizeViaApi_def v using s mr m e
  by (simp add: Let_def split: prod.splits)

text \<open>
  Claim C7, as amended. Take a synchronization attempt in which the mapping collaborator
  returns requests whose item names are keys neither of its validation-issue map nor of its
  synchronization-error map, and these two maps have no key in common. Then the map of
  synchronization errors that \<^verbatim>\<open>synchronizeViaApi\<close> hands to \<^verbatim>\<open>writeSynchronizationResult\<close>,
  the errors of the mapping stage merged with those of the HTTP stage, shares no item name
  with the validation-issue map; its keys are the keys of the two stages, which are
  disjoint; and every key of the mapping stage keeps its message.
\<close>

theorem merged_errors_disjoint_from_issues:
  assumes v: "validatePreconditions D rr tpr x = (pre, x1, evs1)" and s: "synchronizeResource pre"
      and m: "MapResourceToHttpRequests rr pre action = (n, reqs, vi, se)"
      and d1: "ItemName ` set reqs \<inter> keys_map vi = {}"
      and d2: "ItemName ` set reqs \<inter> keys_map se = {}"
      and d3: "keys_map vi \<inter> keys_map se = {}"
      and e: "(if length reqs > 0 then executeAllHttpRequests rr reqs actionLabel x1
               else (None, None, x1, [])) = (succ, he, x2, evs3)"
  shows "(\<exists>mr. monitoringResource pre = Some mr \<and>
            synchronizeViaApi D rr tpr action actionLabel x =
              (Returned,
               fst (writeSynchronizationResult rr mr tpr n succ vi (mergeErrors se he) x2),
               evs1 @
               (if length reqs = 0 \<and> len_map vi = 0 \<and> len_map se = 0
                then [LogInfo NothingToSynchronizeSkipping] else []) @
               evs3 @ [LogInfo SynchronizationSummary] @
               snd (writeSynchronizationResult rr mr tpr n succ vi (mergeErrors se he) x2))) \<and>
         keys_map vi \<inter> keys_map (mergeErrors se he) = {} \<and>
         keys_map (mergeErrors se he) = keys_map se \<union> keys_map he \<and>
         keys_map se \<inter> keys_map he = {} \<and>
         (\<forall>k \<in> keys_map se. lookup_map (mergeErrors se he) k = lookup_map se k)"
proof -
  have hk: "keys_map he \<subseteq> ItemName ` set reqs"
  proof (cases "length reqs > 0")
    case True
    then have "executeAllHttpRequests rr reqs actionLabel x1 = (succ, he, x2, evs3)"
      using e by simp
    then show ?thesis by (rule executeAllHttpRequests_keys)
  next
    case False
    then have "he = None" using e by simp
    then show ?thesis by (simp add: keys_map_def)
  qed
  obtain mr where mr: "monitoringResource pre = Some mr"
    using validatePreconditions_resource[OF v s] by blast
  have a: "\<exists>mr. monitoringResource pre = Some mr \<and>
            synchronizeViaApi D rr tpr action actionLabel x =
              (Returned,
               fst (writeSynchronizationResult rr mr tpr n succ vi (mergeErrors se he) x2),
               evs1 @
               (if length reqs = 0 \<and> len_map vi = 0 \<and> len_map se = 0
                then [LogInfo NothingToSynchronizeSkipping] else []) @
               evs3 @ [LogInfo SynchronizationSummary] @
               snd (writeSynchronizationResult rr mr tpr n succ vi (mergeErrors se he) x2))"
    using synchronizeViaApi_passing[OF v s mr m e] mr by blast
  have b: "keys_map vi \<inter> keys_map (mergeErrors se he) = {}"
    unfolding keys_mergeErrors using d1 d3 hk by blast
  have c: "keys_map se \<inter> keys_map he = {}" using d2 hk by blast
  have d: "\<forall>k \<in> keys_map se. lookup_map (mergeErrors se he) k = lookup_map se k"
  proof
    fix k assume "k \<in> keys_map se"
    then have "k \<notin> keys_map he" using c by blast
    then show "lookup_map (mergeErrors se he) k = lookup_map se k" by (rule lookup_mergeErrors)
  qed
  show ?thesis using a b keys_mergeErrors[of se he] c d by (intro conjI)
qed


text \<open>A mapping that returns one request, a validation issue for a second item and a
  conversion error for a third; the request is answered with 404.\<close>

theorem merged_errors_disjoint_from_issues_witness:
  "validatePreconditions ''default''
      (exampleReconciler (respond 404) (\<lambda>n. None)
         (3, [putItem ''a''], Some (fmupd ''b'' [''invalid''] fmempty),
          Some (fmupd ''c'' ''conversion'' fmempty)))
      exampleObject 0 =
     (\<lparr>synchronizeResource = True, thirdPartyResource = Some exampleObject,
       monitoringResource = Some exampleMonitoring, authToken = ''token'',
       apiEndpoint = ''https://api.example'', dataset = ''default'',
       k8sNamespace = ''ns'', k8sName = ''board''\<rparr>,
      1, [FindMonitoringResource ''ns'']) \<and>
   ItemName ` set [putItem ''a''] \<inter> keys_map (Some (fmupd ''b'' [''invalid''] fmempty)) = {} \<and>
   ItemName ` set [putItem ''a''] \<inter> keys_map (Some (fmupd ''c'' ''conversion'' fmempty)) = {} \<and>
   keys_map (Some (fmupd ''b'' [''invalid''] fmempty)) \<inter>
     keys_map (Some (fmupd ''c'' ''conversion'' fmempty)) = {} \<and>
   executeAllHttpRequests
      (exampleReconciler (respond 404) (\<lambda>n. None)
         (3, [putItem ''a''], Some (fmupd ''b'' [''invalid''] fmempty),
          Some (fmupd ''c'' ''conversion'' fmempty)))
      [putItem ''a''] ''Creating/updating'' 1 =
     (None,
      Some (fmupd ''a'' (''unexpected status code 404'' @
              '' when updating/creating/deleting the dashboard '' @ [CHR 0x22] @ ''a'' @ [CHR 0x22] @
              '' at /a, response body is '') fmempty),
      2,
      [LogInfo ExecutingRequest, HttpClientDo \<lparr>Method = ''PUT'', URL = ''/a''\<rparr>,
       LogError UnexpectedStatusCode]) \<and>
   keys_map (Some (fmupd ''b'' [''invalid''] fmempty)) \<inter>
     keys_map (mergeErrors (Some (fmupd ''c'' ''conversion'' fmempty))
        (Some (fmupd ''a'' (''unexpected status code 404'' @
              '' when updating/creating/deleting the dashboard '' @ [CHR 0x22] @ ''a'' @ [CHR 0x22] @
              '' at /a, response body is '') fmempty))) = {} \<and>
   lookup_map (mergeErrors (Some (fmupd ''c'' ''conversion'' fmempty))
        (Some (fmupd ''a'' (''unexpected status code 404'' @
              '' when updating/creating/deleting the dashboard '' @ [CHR 0x22] @ ''a'' @ [CHR 0x22] @
              '' at /a, response body is '') fmempty))) ''c'' = Some ''conversion''"
proof -
  let ?vi = "Some (fmupd ''b'' [''invalid''] fmempty) :: string list gomap"
  let ?se = "Some (fmupd ''c'' ''conversion'' fmempty) :: string gomap"
  let ?R = "exampleReconciler (respond 404) (\<lambda>n. None) (3, [putItem ''a''], ?vi, ?se)"
  let ?msg = "''unexpected status code 404'' @
              '' when updating/creating/deleting the dashboard '' @ [CHR 0x22] @ ''a'' @ [CHR 0x22] @
              '' at /a, response body is ''"
  let ?he = "Some (fmupd ''a'' ?msg fmempty) :: string gomap"
  let ?pre = "\<lparr>synchronizeResource = True, thirdPartyResource = Some exampleObject,
       monitoringResource = Some exampleMonitoring, authToken = ''token'',
       apiEndpoint = ''https://api.example'', dataset = ''default'',
       k8sNamespace = ''ns'', k8sName = ''board''\<rparr> :: recorded preconditionValidationResult"
  have v: "validatePreconditions ''default'' ?R exampleObject 0 = (?pre, 1, [FindMonitoringResource ''ns''])"
    by (simp add: validatePreconditions_def isValidApiConfig_def Let_def)
  have s: "synchronizeResource ?pre" by simp
  have m: "MapResourceToHttpRequests ?R ?pre upsert = (3, [putItem ''a''], ?vi, ?se)" by simp
  have d1: "ItemName ` set [putItem ''a''] \<inter> keys_map ?vi = {}"
    by (simp add: keys_map_def putItem_def)
  have d2: "ItemName ` set [putItem ''a''] \<inter> keys_map ?se = {}"
    by (simp add: keys_map_def putItem_def)
  have d3: "keys_map ?vi \<inter> keys_map ?se = {}"
    by (simp add: keys_map_def)
  have ex: "executeAllHttpRequests ?R [putItem ''a''] ''Creating/updating'' 1 =
     (None, ?he, 2,
      [LogInfo ExecutingRequest, HttpClientDo \<lparr>Method = ''PUT'', URL = ''/a''\<rparr>,
       LogError UnexpectedStatusCode])"
    by (simp add: executeAllHttpRequests_def executeSingleHttpRequestWithRetry_unrolled
          executeSingleHttpRequest_def respond_def putItem_def convertNon2xxStatusCodeToError_def
          format_d_examples)
  have e: "(if length [putItem ''a''] > 0
            then executeAllHttpRequests ?R [putItem ''a''] ''Creating/updating'' 1
            else (None, None, 1, [])) =
     (None, ?he, 2,
      [LogInfo ExecutingRequest, HttpClientDo \<lparr>Method = ''PUT'', URL = ''/a''\<rparr>,
       LogError UnexpectedStatusCode])"
    using ex by simp
  note t = merged_errors_disjoint_from_issues[OF v s m d1 d2 d3 e]
  have c1: "keys_map ?vi \<inter> keys_map (mergeErrors ?se ?he) = {}"
    using t[THEN conjunct2, THEN conjunct1] .
  have "''c'' \<in> keys_map ?se" by (simp add: keys_map_def)
  then have "lookup_map (mergeErrors ?se ?he) ''c'' = lookup_map ?se ''c''"
    using t[THEN conjunct2, THEN conjunct2, THEN conjunct2, THEN conjunct2] by blast
  then have c2: "lookup_map (mergeErrors ?se ?he) ''c'' = Some ''conversion''"
    by (simp add: lookup_map_def)
  show ?thesis using v d1 d2 d3 ex c1 c2 by (intro conjI)
qed

text \<open>
  Claim C7 as it was stated holds for every synchronization attempt. The engine does not
  check what the mapping collaborator returns: when the collaborator reports an item as
  invalid and as failed in the conversion and returns a request for it as well, and the
  request is answered with 404, the map of synchronization errors that is written to the
  status shares the item with the validation issues, and the message of the mapping stage
  has been overwritten by the one of the HTTP stage.
\<close>

theorem merged_errors_overwrite_counterexample:
  "MapResourceToHttpRequests
      (exampleReconciler (respond 404) (\<lambda>n. None)
         (1, [putItem ''a''], Some (fmupd ''a'' [''invalid''] fmempty),
          Some (fmupd ''a'' ''conversion'' fmempty)))
      \<lparr>synchronizeResource = True, thirdPartyResource = Some exampleObject,
       monitoringResource = Some exampleMonitoring, authToken = ''token'',
       apiEndpoint = ''https://api.example'', dataset = ''default'',
       k8sNamespace = ''ns'', k8sName = ''board''\<rparr> upsert =
     (1, [putItem ''a''], Some (fmupd ''a'' [''invalid''] fmempty),
      Some (fmupd ''a'' ''conversion'' fmempty)) \<and>
   synchronizeViaApi ''default''
      (exampleReconciler (respond 404) (\<lambda>n. None)
         (1, [putItem ''a''], Some (fmupd ''a'' [''invalid''] fmempty),
          Some (fmupd ''a'' ''conversion'' fmempty)))
      exampleObject upsert ''Creating/updating'' 0 =
     (Returned, 4,
      [FindMonitoringResource ''ns'',
       LogInfo ExecutingRequest, HttpClientDo \<lparr>Method = ''PUT'', URL = ''/a''\<rparr>,
       LogError UnexpectedStatusCode,
       LogInfo SynchronizationSummary,
       K8sClientGet ''ns'' ''dash0'',
       K8sClientStatusUpdate
         (exampleMonitoring\<lparr>Status := Some (Failed, 1, None,
            mergeErrors (Some (fmupd ''a'' ''conversion'' fmempty))
              (Some (fmupd ''a'' (''unexpected status code 404'' @
                 '' when updating/creating/deleting the dashboard '' @ [CHR 0x22] @ ''a'' @
                 [CHR 0x22] @ '' at /a, response body is '') fmempty)),
            Some (fmupd ''a'' [''invalid''] fmempty))\<rparr>),
       LogInfo SuccessfullyUpdatedStatus]) \<and>
   keys_map (Some (fmupd ''a'' [''invalid''] fmempty)) \<inter>
     keys_map (mergeErrors (Some (fmupd ''a'' ''conversion'' fmempty))
        (Some (fmupd ''a'' (''unexpected status code 404'' @
           '' when updating/creating/deleting the dashboard '' @ [CHR 0x22] @ ''a'' @
           [CHR 0x22] @ '' at /a, response body is '') fmempty))) = {''a''} \<and>
   lookup_map (Some (fmupd ''a'' ''conversion'' fmempty)) ''a'' = Some ''conversion'' \<and>
   lookup_map (mergeErrors (Some (fmupd ''a'' ''conversion'' fmempty))
        (Some (fmupd ''a'' (''unexpected status code 404'' @
           '' when updating/creating/deleting the dashboard '' @ [CHR 0x22] @ ''a'' @
           [CHR 0x22] @ '' at /a, response body is '') fmempty))) ''a'' =
     Some (''unexpected status code 404'' @
           '' when updating/creating/deleting the dashboard '' @ [CHR 0x22] @ ''a'' @
           [CHR 0x22] @ '' at /a, response body is '')"
proof -
  let ?vi = "Some (fmupd ''a'' [''invalid''] fmempty) :: string list gomap"
  let ?se = "Some (fmupd ''a'' ''conversion'' fmempty) :: string gomap"
  let ?R = "exampleReconciler (respond 404) (\<lambda>n. None) (1, [putItem ''a''], ?vi, ?se)"
  let ?msg = "''unexpected status code 404'' @
              '' when updating/creating/deleting the dashboard '' @ [CHR 0x22] @ ''a'' @ [CHR 0x22] @
              '' at /a, response body is ''"
  let ?he = "Some (fmupd ''a'' ?msg fmempty) :: string gomap"
  let ?pre = "\<lparr>synchronizeResource = True, thirdPartyResource = Some exampleObject,
       monitoringResource = Some exampleMonitoring, authToken = ''token'',
       apiEndpoint = ''https://api.example'', dataset = ''default'',
       k8sNamespace = ''ns'', k8sName = ''board''\<rparr> :: recorded preconditionValidationResult"
  have v: "validatePreconditions ''default'' ?R exampleObject 0 = (?pre, 1, [FindMonitoringResource ''ns''])"
    by (simp add: validatePreconditions_def isValidApiConfig_def Let_def)
  have m: "MapResourceToHttpRequests ?R ?pre upsert = (1, [putItem ''a''], ?vi, ?se)" by simp
  have e: "(if length [putItem ''a''] > 0
            then executeAllHttpRequests ?R [putItem ''a''] ''Creating/updating'' 1
            else (None, None, 1, [])) =
     (None, ?he, 2,
      [LogInfo ExecutingRequest, HttpClientDo \<lparr>Method = ''PUT'', URL = ''/a''\<rparr>,
       LogError UnexpectedStatusCode])"
    by (simp add: executeAllHttpRequests_def executeSingleHttpRequestWithRetry_unrolled
          executeSingleHttpRequest_def respond_def putItem_def convertNon2xxStatusCodeToError_def
          format_d_examples)
  have w: "writeSynchronizationResult ?R exampleMonitoring exampleObject 1 None ?vi (mergeErrors ?se ?he) 2 =
     (4, [K8sClientGet ''ns'' ''dash0'',
       K8sClientStatusUpdate
         (exampleMonitoring\<lparr>Status := Some (Failed, 1, None, mergeErrors ?se ?he, ?vi)\<rparr>),
       LogInfo SuccessfullyUpdatedStatus])"
    by (simp add: writeSynchronizationResult_unrolled statusWriteAttempt_def
          synchronizationResult_def Let_def)
  have run: "synchronizeViaApi ''default'' ?R exampleObject upsert ''Creating/updating'' 0 =
     (Returned, 4,
      [FindMonitoringResource ''ns'',
       LogInfo ExecutingRequest, HttpClientDo \<lparr>Method = ''PUT'', URL = ''/a''\<rparr>,
       LogError UnexpectedStatusCode,
       LogInfo SynchronizationSummary,
       K8sClientGet ''ns'' ''dash0'',
       K8sClientStatusUpdate
         (exampleMonitoring\<lparr>Status := Some (Failed, 1, None, mergeErrors ?se ?he, ?vi)\<rparr>),
       LogInfo SuccessfullyUpdatedStatus])"
    using synchronizeViaApi_passing[OF v _ _ m e, of exampleMonitoring] w by simp
  have k: "keys_map ?vi \<inter> keys_map (mergeErrors ?se ?he) = {''a''}"
    unfolding keys_mergeErrors by (simp add: keys_map_def)
  have l1: "lookup_map ?se ''a'' = Some ''conversion''" by (simp add: lookup_map_def)
  have l2: "lookup_map (mergeErrors ?se ?he) ''a'' = Some ?msg"
    by (simp add: mergeErrors_def maps_Copy_def lookup_map_def)
  show ?thesis using m run k l1 l2 by (intro conjI)
qed

section \<open>Nothing to synchronize\<close>

text \<open>
  Claim C2. When the mapping collaborator returns no request, no validation issue and no
  synchronization error, \<^verbatim>\<open>synchronizeViaApi\<close> writes the log line that ends with
  \<^verbatim>\<open>skipping.\<close> and then goes on, since the branch has no \<^verbatim>\<open>return\<close>: no HTTP request is
  sent, but \<^verbatim>\<open>writeSynchronizationResult\<close> is reached, fetches the monitoring resource and
  updates its status with the result \<open>Failed\<close>. The two runs below are the code on that
  input, once with nil maps and once with empty ones.
\<close>

theorem synchronizeViaApi_nothing_to_do_still_writes:
  "MapResourceToHttpRequests
      (exampleReconciler (respond 200) (\<lambda>n. None) (0, [], None, None))
      \<lparr>synchronizeResource = True, thirdPartyResource = Some exampleObject,
       monitoringResource = Some exampleMonitoring, authToken = ''token'',
       apiEndpoint = ''https://api.example'', dataset = ''default'',
       k8sNamespace = ''ns'', k8sName = ''board''\<rparr> upsert = (0, [], None, None) \<and>
   synchronizeViaApi ''default''
      (exampleReconciler (respond 200) (\<lambda>n. None) (0, [], None, None))
      exampleObject upsert ''Creating/updating'' 0 =
     (Returned, 3,
      [FindMonitoringResource ''ns'',
       LogInfo NothingToSynchronizeSkipping,
       LogInfo SynchronizationSummary,
       K8sClientGet ''ns'' ''dash0'',
       K8sClientStatusUpdate (exampleMonitoring\<lparr>Status := Some (Failed, 0, None, None, None)\<rparr>),
       LogInfo SuccessfullyUpdatedStatus]) \<and>
   synchronizeViaApi ''default''
      (exampleReconciler (respond 200) (\<lambda>n. None) (0, [], Some fmempty, Some fmempty))
      exampleObject delete_action ''Deleting'' 0 =
     (Returned, 3,
      [FindMonitoringResource ''ns'',
       LogInfo NothingToSynchronizeSkipping,
       LogInfo SynchronizationSummary,
       K8sClientGet ''ns'' ''dash0'',
       K8sClientStatusUpdate
         (exampleMonitoring\<lparr>Status := Some (Failed, 0, None, Some fmempty, Some fmempty)\<rparr>),
       LogInfo SuccessfullyUpdatedStatus])"
  by (simp add: synchronizeViaApi_def validatePreconditions_def isValidApiConfig_def Let_def
        mergeErrors_def writeSynchronizationResult_unrolled statusWriteAttempt_def
        synchronizationResult_def)


end
